theory Spec2Isabelle
  imports
    Main
    "HOL-Library.Sublist"
    "HOL-Library.Char_ord"
    "HOL-Library.List_Lexorder"
    "HOL-Library.Sorting_Algorithms"
begin

section \<open>Strings\<close>

text \<open>
  The pages work on JavaScript strings, which are sequences of UTF-16 code units. A HOL
  character stands for the code unit of the same number, so the HOL strings are the
  JavaScript strings whose code units are below 256 (Basic Latin and Latin-1
  Supplement). On these, \<^verbatim>\<open>String.prototype.toLowerCase\<close> works unit by unit: it
  maps \<open>A\<close> to \<open>Z\<close> (0x41 to 0x5A) and the capital letters 0xC0 to 0xDE of Latin-1,
  the multiplication sign 0xD7 excepted, to the unit 32 above, and leaves every other
  unit alone. \<open>includes_str\<close> is \<^verbatim>\<open>String.prototype.includes\<close>: it looks for its
  argument at every position of the receiver, from left to right.
\<close>

definition toLowerChar :: "char \<Rightarrow> char" where
  "toLowerChar c =
     (if (CHR ''A'' \<le> c \<and> c \<le> CHR ''Z'') \<or> (CHR 0xC0 \<le> c \<and> c \<le> CHR 0xDE \<and> c \<noteq> CHR 0xD7)
      then char_of (of_char c + (32::nat)) else c)"

definition toLowerCase :: "string \<Rightarrow> string" where
  "toLowerCase s = map toLowerChar s"

fun includes_str :: "string \<Rightarrow> string \<Rightarrow> bool" where
  "includes_str [] t = (t = [])"
| "includes_str (c # s) t = (prefix t (c # s) \<or> includes_str s t)"

text \<open>
  The specification's reading of a match: the lower-cased \<open>t\<close> occurs somewhere inside
  the lower-cased \<open>s\<close>.
\<close>

abbreviation containsIgnoringCase :: "string \<Rightarrow> string \<Rightarrow> bool" where
  "containsIgnoringCase s t \<equiv> (\<exists>pre post. toLowerCase s = pre @ toLowerCase t @ post)"

section \<open>Recipes page: stock status\<close>

text \<open>
  \<^verbatim>\<open>src/pages/Recipes.tsx\<close>. The records come out of the document store with a type
  cast, and the page guards against a missing ingredient name, a missing item name and a
  missing ingredient array; these three fields are therefore optional in the model
  (\<open>None\<close> is JavaScript's \<open>undefined\<close>). The elements of the arrays are records: an
  array element that is itself \<open>null\<close>, which \<open>item?.name\<close> would also let through, is
  not modelled. Fields the functions below never read (image, times, servings,
  quantities, units, instructions) are left out.
\<close>

record ingredient =
  ingredient_name :: "string option"

record inventory_item =
  item_id :: string
  item_name :: "string option"

record recipe =
  recipe_id :: string
  recipe_name :: string
  description :: string
  cuisine :: string
  category :: string
  ingredients :: "ingredient list option"

text \<open>
  \<^verbatim>\<open>
  const checkIngredientInStock = (ingredient: string): boolean => {
    if (!ingredient) return false;
    const ingredientLower = ingredient.toLowerCase();
    return inventory.some(item =>
      item?.name?.toLowerCase().includes(ingredientLower));
  };
  \<close>
  \<open>!ingredient\<close> holds for \<open>undefined\<close> and for the empty string.
\<close>

definition checkIngredientInStock :: "inventory_item list \<Rightarrow> string option \<Rightarrow> bool" where
  "checkIngredientInStock inventory ingredient =
     (case ingredient of
        None \<Rightarrow> False
      | Some s \<Rightarrow>
          if s = [] then False
          else list_ex (\<lambda>item. case item_name item of
                                  None \<Rightarrow> False
                                | Some n \<Rightarrow> includes_str (toLowerCase n) (toLowerCase s))
                 inventory)"

text \<open>
  \<^verbatim>\<open>
  const hasAllIngredientsInStock = (recipe: Recipe): boolean => {
    if (!recipe.ingredients) return false; // Check if ingredients array is defined
    return recipe.ingredients.every(ingredient =>
      ingredient?.name && checkIngredientInStock(ingredient.name));
  };
  \<close>
  An array is truthy even when it is empty, so the guard fires on a missing array only.
\<close>

definition truthy :: "string option \<Rightarrow> bool" where
  "truthy v = (case v of None \<Rightarrow> False | Some s \<Rightarrow> s \<noteq> [])"

definition hasAllIngredientsInStock :: "inventory_item list \<Rightarrow> recipe \<Rightarrow> bool" where
  "hasAllIngredientsInStock inventory r =
     (case ingredients r of
        None \<Rightarrow> False
      | Some ings \<Rightarrow>
          list_all (\<lambda>i. truthy (ingredient_name i) \<and>
                         checkIngredientInStock inventory (ingredient_name i)) ings)"

section \<open>Recipes page: the filter\<close>

text \<open>
  A property read of \<open>undefined\<close> raises a \<open>TypeError\<close>, and a name that is not in scope
  raises a \<open>ReferenceError\<close>. Both are values of the model.
\<close>

datatype js_error = TypeError | ReferenceError

text \<open>
  \<^verbatim>\<open>
  const filteredRecipes = recipes.filter(recipe => {
    const matchesSearch =
      recipe.name.toLowerCase().includes(searchTerm.toLowerCase()) ||
      recipe.description.toLowerCase().includes(searchTerm.toLowerCase()) ||
      recipe.cuisine.toLowerCase().includes(searchTerm.toLowerCase()) ||
      recipe.ingredients.some(ingredient =>
        ingredient?.name?.toLowerCase().includes(searchTerm.toLowerCase()));
    const matchesCategory = !categoryFilter || recipe.category === categoryFilter;
    const matchesStock = !showOnlyInStock || hasAllIngredientsInStock(recipe);
    return matchesSearch && matchesCategory && matchesStock;
  });
  \<close>
  \<open>||\<close> evaluates from the left and stops at the first true operand, so the ingredient
  array is read only when name, description and cuisine all fail to match; reading
  \<open>some\<close> of a missing array raises.
\<close>

definition matchesSearch :: "string \<Rightarrow> recipe \<Rightarrow> js_error + bool" where
  "matchesSearch searchTerm r =
     (if includes_str (toLowerCase (recipe_name r)) (toLowerCase searchTerm) then Inr True
      else if includes_str (toLowerCase (description r)) (toLowerCase searchTerm) then Inr True
      else if includes_str (toLowerCase (cuisine r)) (toLowerCase searchTerm) then Inr True
      else case ingredients r of
             None \<Rightarrow> Inl TypeError
           | Some ings \<Rightarrow>
               Inr (list_ex (\<lambda>i. case ingredient_name i of
                                    None \<Rightarrow> False
                                  | Some n \<Rightarrow> includes_str (toLowerCase n) (toLowerCase searchTerm))
                      ings))"

definition recipeFilter ::
  "inventory_item list \<Rightarrow> string \<Rightarrow> string \<Rightarrow> bool \<Rightarrow> recipe \<Rightarrow> js_error + bool" where
  "recipeFilter inventory searchTerm categoryFilter showOnlyInStock r =
     (case matchesSearch searchTerm r of
        Inl e \<Rightarrow> Inl e
      | Inr search \<Rightarrow>
          let matchesCategory = (categoryFilter = [] \<or> category r = categoryFilter);
              matchesStock = (\<not> showOnlyInStock \<or> hasAllIngredientsInStock inventory r)
          in Inr (search \<and> matchesCategory \<and> matchesStock))"

fun filteredRecipes ::
  "inventory_item list \<Rightarrow> string \<Rightarrow> string \<Rightarrow> bool \<Rightarrow> recipe list \<Rightarrow> js_error + recipe list" where
  "filteredRecipes inventory searchTerm categoryFilter showOnlyInStock [] = Inr []"
| "filteredRecipes inventory searchTerm categoryFilter showOnlyInStock (r # rs) =
     (case recipeFilter inventory searchTerm categoryFilter showOnlyInStock r of
        Inl e \<Rightarrow> Inl e
      | Inr keep \<Rightarrow>
          (case filteredRecipes inventory searchTerm categoryFilter showOnlyInStock rs of
             Inl e \<Rightarrow> Inl e
           | Inr kept \<Rightarrow> Inr (if keep then r # kept else kept)))"

section \<open>Recipes page: adding the missing ingredients to the shopping list\<close>

text \<open>
  The document written for a missing ingredient. The product type is a parameter: the
  handler only ever writes the empty product list.
\<close>

record 'p item_doc =
  doc_name :: "string option"
  doc_category :: string
  doc_completed :: bool
  doc_products :: "'p list"

record shopping_list =
  list_id :: string
  list_name :: string

text \<open>
  The store holds, for every shopping list id, the documents of its \<open>items\<close>
  sub-collection, oldest first. Each \<open>addDoc\<close> call either resolves or throws; the
  outcomes of the successive calls are given as a list of booleans (\<open>True\<close>: the call
  resolves and the document is stored), and a call for which no outcome is left throws.
\<close>

type_synonym 'p items_store = "string \<Rightarrow> 'p item_doc list"

text \<open>
  \<^verbatim>\<open>
  const handleAddMissingIngredients = async (recipe: Recipe) => {
    if (!currentList) return;
    const missingIngredients = recipe.ingredients.filter(
      ingredient => !checkIngredientInStock(ingredient.name));
    try {
      for (const ingredient of missingIngredients) {
        await addDoc(collection(db, 'shoppingLists', currentList.id, 'items'), {
          name: ingredient.name, category: 'Ingredients', completed: false, products: []
        });
      }
      alert('Missing ingredients added to the shopping list!');
    } catch (error) { console.error('Error adding missing ingredients:', error); }
  };
  \<close>
  The loop returns the store and whether it ran to its end (the alert is shown).
\<close>

definition missingIngredients :: "inventory_item list \<Rightarrow> ingredient list \<Rightarrow> ingredient list" where
  "missingIngredients inventory ings =
     filter (\<lambda>i. \<not> checkIngredientInStock inventory (ingredient_name i)) ings"

definition newItemDoc :: "ingredient \<Rightarrow> 'p item_doc" where
  "newItemDoc i =
     \<lparr>doc_name = ingredient_name i, doc_category = ''Ingredients'',
      doc_completed = False, doc_products = []\<rparr>"

fun addEach :: "bool list \<Rightarrow> string \<Rightarrow> ingredient list \<Rightarrow> 'p items_store \<Rightarrow> 'p items_store \<times> bool" where
  "addEach outcomes listId [] store = (store, True)"
| "addEach [] listId (i # rest) store = (store, False)"
| "addEach (ok # outcomes) listId (i # rest) store =
     (if ok then addEach outcomes listId rest (store(listId := store listId @ [newItemDoc i]))
      else (store, False))"

definition handleAddMissingIngredients ::
  "bool list \<Rightarrow> inventory_item list \<Rightarrow> shopping_list option \<Rightarrow> recipe \<Rightarrow> 'p items_store
     \<Rightarrow> js_error + ('p items_store \<times> bool)" where
  "handleAddMissingIngredients outcomes inventory currentList r store =
     (case currentList of
        None \<Rightarrow> Inr (store, False)
      | Some l \<Rightarrow>
          (case ingredients r of
             None \<Rightarrow> Inl TypeError
           | Some ings \<Rightarrow>
               Inr (addEach outcomes (list_id l) (missingIngredients inventory ings) store)))"

section \<open>Inventory page: expiration\<close>

text \<open>
  \<^verbatim>\<open>src/pages/Inventory.tsx\<close>.
  \<^verbatim>\<open>
  const isExpiringSoon = (date?: string) => {
    if (!date) return false;
    const expirationDate = new Date(date);
    const today = new Date();
    const daysUntilExpiration =
      Math.floor((expirationDate.getTime() - today.getTime()) / (1000 * 60 * 60 * 24));
    return daysUntilExpiration <= 7 && daysUntilExpiration >= 0;
  };
  const isExpired = (date?: string) => {
    if (!date) return false;
    return new Date(date) < new Date();
  };
  \<close>
  Times are milliseconds since the epoch. \<open>new Date()\<close> is the current instant \<open>now\<close>,
  time of day included. \<open>new Date(date)\<close> is the host's date parser, a parameter
  \<open>parseDate\<close> of the model: it gives the time value, or \<open>None\<close> for an invalid date,
  whose time value \<open>NaN\<close> fails every comparison. A date-only string such as
  \<open>2024-01-10\<close> parses to midnight UTC of that day. Time values are whole numbers below
  \<open>2^53\<close> in magnitude, so the subtraction is exact; the quotient by 86400000 is rounded
  to a double before \<open>Math.floor\<close>, which cannot move it across 0 or across 8 (a whole
  number of milliseconds that is not a multiple of a day is at least \<open>1 / 86400000\<close> away
  from a whole number of days), so the test \<open>0 \<le> days \<le> 7\<close> is decided as by the floor
  division of integers.
\<close>

definition isExpiringSoon :: "(string \<Rightarrow> int option) \<Rightarrow> int \<Rightarrow> string option \<Rightarrow> bool" where
  "isExpiringSoon parseDate now date =
     (case date of
        None \<Rightarrow> False
      | Some d \<Rightarrow>
          if d = [] then False
          else (case parseDate d of
                  None \<Rightarrow> False
                | Some expirationDate \<Rightarrow>
                    let daysUntilExpiration = (expirationDate - now) div (1000 * 60 * 60 * 24)
                    in daysUntilExpiration \<le> 7 \<and> daysUntilExpiration \<ge> 0))"

definition isExpired :: "(string \<Rightarrow> int option) \<Rightarrow> int \<Rightarrow> string option \<Rightarrow> bool" where
  "isExpired parseDate now date =
     (case date of
        None \<Rightarrow> False
      | Some d \<Rightarrow>
          if d = [] then False
          else (case parseDate d of
                  None \<Rightarrow> False
                | Some expirationDate \<Rightarrow> expirationDate < now))"

text \<open>
  The status is what the table cell renders:
  \<^verbatim>\<open>
  isExpired(item.expirationDate) ? 'text-red-600'
    : isExpiringSoon(item.expirationDate) ? 'text-yellow-600' : 'text-gray-600'
  \<close>
\<close>

datatype expiration_status = NoStatus | ExpiringSoon | Expired

definition expirationStatus :: "(string \<Rightarrow> int option) \<Rightarrow> int \<Rightarrow> string option \<Rightarrow> expiration_status" where
  "expirationStatus parseDate now date =
     (if isExpired parseDate now date then Expired
      else if isExpiringSoon parseDate now date then ExpiringSoon
      else NoStatus)"

definition msPerDay :: int where
  "msPerDay = 1000 * 60 * 60 * 24"

text \<open>
  The host's parser on the date strings of the examples: a date-only string parses to
  midnight UTC of its day (2024-01-10 is day 19732 of the epoch).
\<close>

definition sampleDates :: "(string \<times> int) list" where
  "sampleDates =
     [(''2024-01-09'', 1704758400000), (''2024-01-10'', 1704844800000),
      (''2024-01-17'', 1705449600000), (''2024-01-18'', 1705536000000)]"

section \<open>Menu page: total times\<close>

text \<open>
  \<^verbatim>\<open>src/pages/Menu.tsx\<close>. The minutes are JavaScript Numbers, that is doubles. Every
  Number that occurs here is a whole number, an infinity or \<open>NaN\<close>: \<open>Finite k\<close> is the
  double whose value is the integer \<open>k\<close>. A whole number of magnitude up to \<open>2^53\<close> is
  a double as it is; a larger one is rounded to 53 significant bits, to the nearest
  double and to the even one of two nearest, and one that rounds to \<open>2^1024\<close> or more
  becomes an infinity. The two zeros of the doubles are not told apart: \<open>|| 0\<close> turns
  either into 0 before anything is added, and no sum of the terms gives the negative one.
  \<open>bits n\<close> is the number of binary digits of \<open>n\<close>.
\<close>

datatype number = NaN | NegInfinity | Finite int | Infinity

function bits :: "int \<Rightarrow> nat" where
  "bits n = (if n \<le> 0 then 0 else Suc (bits (n div 2)))"
  by pat_completeness auto
termination
  by (relation "measure nat") auto

declare bits.simps [simp del]

text \<open>\<open>roundMagnitude\<close> rounds a magnitude, \<open>toNumber\<close> a signed whole number.\<close>

definition roundMagnitude :: "int \<Rightarrow> int" where
  "roundMagnitude n =
     (let e = bits n - 53; q = n div 2 ^ e; r = n mod 2 ^ e
      in if 2 * r > 2 ^ e \<or> (2 * r = 2 ^ e \<and> odd q) then (q + 1) * 2 ^ e else q * 2 ^ e)"

definition toNumber :: "int \<Rightarrow> number" where
  "toNumber k =
     (let m = roundMagnitude \<bar>k\<bar>
      in if 2 ^ 1024 \<le> m then (if k < 0 then NegInfinity else Infinity)
         else Finite (if k < 0 then - m else m))"

text \<open>
  \<open>a + b\<close> on Numbers: the exact sum of two finite doubles, rounded; an infinity absorbs
  every finite number; the two infinities add up to \<open>NaN\<close>, and \<open>NaN\<close> absorbs everything.
\<close>

fun addNumber :: "number \<Rightarrow> number \<Rightarrow> number" where
  "addNumber (Finite a) (Finite b) = toNumber (a + b)"
| "addNumber NaN y = NaN"
| "addNumber x NaN = NaN"
| "addNumber Infinity NegInfinity = NaN"
| "addNumber NegInfinity Infinity = NaN"
| "addNumber Infinity y = Infinity"
| "addNumber x Infinity = Infinity"
| "addNumber NegInfinity y = NegInfinity"
| "addNumber x NegInfinity = NegInfinity"

text \<open>
  \<open>parseInt\<close> with no radix, as ECMAScript defines it: skip leading white space; take
  an optional sign; a following \<open>0x\<close> or \<open>0X\<close> selects radix 16, otherwise the radix is
  10; read the longest run of digits of that radix; no digit at all gives \<open>NaN\<close>,
  otherwise the result is the Number of the signed value of the run. ECMAScript lets
  an implementation read the decimal digits after the twentieth as zeros; the model reads
  them all, which makes no difference to a value up to \<open>2^53\<close>. The white space of
  ECMAScript below code unit 256 is tab, line feed, vertical tab, form feed, carriage
  return, space and the no-break space 0xA0.
\<close>

definition isStrWhiteSpace :: "char \<Rightarrow> bool" where
  "isStrWhiteSpace c =
     (c = CHR 0x09 \<or> c = CHR 0x0A \<or> c = CHR 0x0B \<or> c = CHR 0x0C \<or> c = CHR 0x0D \<or> c = CHR '' ''
      \<or> c = CHR 0xA0)"

definition digitValue :: "char \<Rightarrow> nat option" where
  "digitValue c =
     (let n = (of_char c :: nat) in
      if 48 \<le> n \<and> n \<le> 57 then Some (n - 48)
      else if 97 \<le> n \<and> n \<le> 122 then Some (n - 87)
      else if 65 \<le> n \<and> n \<le> 90 then Some (n - 55)
      else None)"

definition isRadixDigit :: "nat \<Rightarrow> char \<Rightarrow> bool" where
  "isRadixDigit radix c = (case digitValue c of None \<Rightarrow> False | Some v \<Rightarrow> v < radix)"

definition digitsValue :: "nat \<Rightarrow> string \<Rightarrow> int" where
  "digitsValue radix z =
     foldl (\<lambda>acc c. case digitValue c of None \<Rightarrow> acc | Some v \<Rightarrow> acc * int radix + int v) 0 z"

definition stripSign :: "string \<Rightarrow> int \<times> string" where
  "stripSign s =
     (case s of
        [] \<Rightarrow> (1, [])
      | c # cs \<Rightarrow> if c = CHR ''-'' then (- 1, cs) else if c = CHR ''+'' then (1, cs) else (1, s))"

definition stripPrefix :: "string \<Rightarrow> nat \<times> string" where
  "stripPrefix s =
     (case s of
        a # b # cs \<Rightarrow>
          if a = CHR ''0'' \<and> (b = CHR ''x'' \<or> b = CHR ''X'') then (16, cs) else (10, s)
      | _ \<Rightarrow> (10, s))"

definition parseInt :: "string \<Rightarrow> number" where
  "parseInt str =
     (let (sign, s1) = stripSign (dropWhile isStrWhiteSpace str);
          (radix, s2) = stripPrefix s1;
          z = takeWhile (isRadixDigit radix) s2
      in if z = [] then NaN else toNumber (sign * digitsValue radix z))"

text \<open>
  \<open>parseInt(s) || 0\<close>: \<open>NaN\<close> and 0 are the falsy Numbers, every other Number is
  kept.
\<close>

definition minutes :: "string \<Rightarrow> number" where
  "minutes s =
     (case parseInt s of
        NaN \<Rightarrow> Finite 0
      | Finite k \<Rightarrow> if k = 0 then Finite 0 else Finite k
      | NegInfinity \<Rightarrow> NegInfinity
      | Infinity \<Rightarrow> Infinity)"

record menu_recipe =
  mr_name :: string
  prepTime :: string
  cookTime :: string

record menu =
  menu_name :: string
  recipes :: "menu_recipe list"

text \<open>
  \<^verbatim>\<open>
  const totalPrepTime = menu.recipes.reduce((total, recipe) => {
    const prepMinutes = parseInt(recipe.prepTime) || 0;
    return total + prepMinutes;
  }, 0);
  \<close>
  and the same for \<open>cookTime\<close>.
\<close>

definition totalPrepTime :: "menu \<Rightarrow> number" where
  "totalPrepTime m = foldl (\<lambda>total r. addNumber total (minutes (prepTime r))) (Finite 0) (recipes m)"

definition totalCookTime :: "menu \<Rightarrow> number" where
  "totalCookTime m = foldl (\<lambda>total r. addNumber total (minutes (cookTime r))) (Finite 0) (recipes m)"

text \<open>The integer a finite Number holds (0 for the others).\<close>

definition wholeOf :: "number \<Rightarrow> int" where
  "wholeOf x = (case x of Finite k \<Rightarrow> k | _ \<Rightarrow> 0)"

section \<open>Calendar page\<close>

text \<open>
  The calendar page (its \<open>Calendar\<close> component). An awaited store call either throws or
  returns a value.
\<close>

datatype 'a awaited = Throws | Returns 'a

text \<open>
  What the page sees of the document store. \<open>menus\<close> gives, for a menu id, what
  \<open>getDoc(doc(db, 'menus', id))\<close> yields: the call throws, or it returns a snapshot that
  holds no document (\<open>exists()\<close> is false and \<open>data()\<close> is \<open>undefined\<close>), or a
  snapshot with the menu's fields. The fields of a menu are copied and never read here,
  so their type is the parameter \<open>'m\<close>. \<open>calendar_docs\<close> are the documents of the
  \<open>calendar\<close> collection with their ids, and \<open>calendar_readable\<close> says whether
  \<open>getDocs\<close> on it returns.
\<close>

record calendar_fields =
  cal_date :: string
  cal_menuId :: string

record 'm calendar_store =
  menus :: "string \<Rightarrow> 'm option awaited"
  calendar_docs :: "(string \<times> calendar_fields) list"
  calendar_readable :: bool

text \<open>
  A \<open>menus\<close> collection given by its documents and by the ids whose fetch throws.
\<close>

definition menusCollection :: "(string \<times> 'm) list \<Rightarrow> string list \<Rightarrow> string \<Rightarrow> 'm option awaited" where
  "menusCollection docs failing menuId =
     (if menuId \<in> set failing then Throws else Returns (map_of docs menuId))"

text \<open>
  \<open>{ id: menuSnapshot.id, ...menuSnapshot.data() }\<close>: the id of the reference, and the
  fields of the document when there is one (spreading \<open>undefined\<close> adds nothing).
\<close>

record 'm menu_item =
  menu_id :: string
  menu_data :: "'m option"

record 'm calendar_entry =
  entry_id :: string
  entry_date :: string
  entry_menuId :: string
  entry_menu :: "'m menu_item"

record 'm calendar_view =
  calendarEntries :: "'m calendar_entry list"
  isAddModalOpen :: bool
  selectedDateForModal :: "string option"

text \<open>
  \<^verbatim>\<open>
  const handleSaveMenu = async (date: Date, menuId: string) => {
    try {
      const entry = { date: format(date, 'yyyy-MM-dd'), menuId };
      const docRef = await addDoc(collection(db, 'calendar'), entry);
      const menuDocRef = doc(db, 'menus', menuId);
      const menuSnapshot = await getDoc(menuDocRef);
      const menuData = { id: menuSnapshot.id, ...menuSnapshot.data() } as MenuItem;
      setCalendarEntries([...calendarEntries,
        { id: docRef.id, ...entry, menu: menuData } as CalendarEntry]);
      setIsAddModalOpen(false);
      setSelectedDateForModal(null);
    } catch (error) { console.error('Error saving calendar entry:', error); }
  };
  \<close>
  The argument \<open>date\<close> of the model is the formatted string \<open>format(date, 'yyyy-MM-dd')\<close>,
  and \<open>addReply\<close> is what the \<open>addDoc\<close> call yields: it throws and stores nothing,
  or it stores the document and returns the id the store gave to it.
\<close>

definition handleSaveMenu ::
  "'m calendar_store \<Rightarrow> string awaited \<Rightarrow> 'm calendar_view \<Rightarrow> string \<Rightarrow> string
     \<Rightarrow> 'm calendar_store \<times> 'm calendar_view" where
  "handleSaveMenu store addReply view date menuId =
     (let entry = \<lparr>cal_date = date, cal_menuId = menuId\<rparr> in
      case addReply of
        Throws \<Rightarrow> (store, view)
      | Returns docRefId \<Rightarrow>
          let store' = store\<lparr>calendar_docs := calendar_docs store @ [(docRefId, entry)]\<rparr> in
          (case menus store' menuId of
             Throws \<Rightarrow> (store', view)
           | Returns menuSnapshot \<Rightarrow>
               let menuData = \<lparr>menu_id = menuId, menu_data = menuSnapshot\<rparr> in
               (store',
                view\<lparr>calendarEntries := calendarEntries view @
                        [\<lparr>entry_id = docRefId, entry_date = cal_date entry,
                          entry_menuId = cal_menuId entry, entry_menu = menuData\<rparr>],
                     isAddModalOpen := False,
                     selectedDateForModal := None\<rparr>)))"

text \<open>
  \<^verbatim>\<open>
  const fetchCalendarEntries = async () => {
    try {
      const querySnapshot = await getDocs(collection(db, 'calendar'));
      const entries = await Promise.all(
        querySnapshot.docs.map(async (docSnapshot) => {
          const data = docSnapshot.data();
          try {
            const menuDocRef = doc(db, 'menus', data.menuId);
            const menuSnapshot = await getDoc(menuDocRef);
            if (!menuSnapshot.exists()) {
              console.error(`Menu with ID ${data.menuId} not found`);
              return null;
            }
            const menuData = { id: menuSnapshot.id, ...menuSnapshot.data() };
            return { id: docSnapshot.id, ...data, menu: menuData } as CalendarEntry;
          } catch (error) { return null; }
        }));
      setCalendarEntries(entries.filter((entry): entry is CalendarEntry => entry !== null));
    } catch (error) { console.error('Error fetching calendar entries:', error); }
  };
  \<close>
  \<open>None\<close> is the \<open>null\<close> of the inner function.
\<close>

definition fetchEntry :: "'m calendar_store \<Rightarrow> string \<times> calendar_fields \<Rightarrow> 'm calendar_entry option" where
  "fetchEntry store docSnapshot =
     (let data = snd docSnapshot in
      case menus store (cal_menuId data) of
        Throws \<Rightarrow> None
      | Returns None \<Rightarrow> None
      | Returns (Some menuFields) \<Rightarrow>
          Some \<lparr>entry_id = fst docSnapshot, entry_date = cal_date data,
                entry_menuId = cal_menuId data,
                entry_menu = \<lparr>menu_id = cal_menuId data, menu_data = Some menuFields\<rparr>\<rparr>)"

definition fetchCalendarEntries :: "'m calendar_store \<Rightarrow> 'm calendar_view \<Rightarrow> 'm calendar_view" where
  "fetchCalendarEntries store view =
     (if calendar_readable store
      then let entries = map (fetchEntry store) (calendar_docs store)
           in view\<lparr>calendarEntries := map the (filter (\<lambda>entry. entry \<noteq> None) entries)\<rparr>
      else view)"

definition resolves :: "'m calendar_store \<Rightarrow> string \<times> calendar_fields \<Rightarrow> bool" where
  "resolves store docSnapshot =
     (case menus store (cal_menuId (snd docSnapshot)) of
        Returns (Some menuFields) \<Rightarrow> True
      | _ \<Rightarrow> False)"

section \<open>Shopping list page\<close>

text \<open>
  \<^verbatim>\<open>src/pages/ShoppingList.tsx\<close>, the page that keeps several lists, each with an
  \<open>items\<close> sub-collection. The product variants of an item are carried along and never
  read by the handlers, so their type is the parameter \<open>'p\<close>.
\<close>

record 'p shopping_item =
  shop_id :: string
  shop_name :: string
  shop_category :: string
  completed :: bool
  products :: "'p list"

record 'p shopping_view =
  shoppingLists :: "shopping_list list"
  currentList :: "shopping_list option"
  items :: "'p shopping_item list"
  selectedItems :: "string list"
  addModalOpen :: bool
  editModalOpen :: bool
  selectedItem :: "'p shopping_item option"
  isListDropdownOpen :: bool

text \<open>
  \<open>xs.sort((a, b) => a.name.localeCompare(b.name))\<close>. \<open>localeCompare\<close> is the host's
  collation, a parameter \<open>lc\<close> of the model; a comparator is a total preorder.
  \<open>Array.prototype.sort\<close> is stable, and the stable sort of a list under a comparator
  is unique.
\<close>

definition sortItems :: "string comparator \<Rightarrow> 'p shopping_item list \<Rightarrow> 'p shopping_item list" where
  "sortItems lc xs = Sorting_Algorithms.sort (key shop_name lc) xs"

definition initialView :: "'p shopping_view" where
  "initialView =
     \<lparr>shoppingLists = [], currentList = None, items = [], selectedItems = [],
      addModalOpen = False, editModalOpen = False, selectedItem = None,
      isListDropdownOpen = False\<rparr>"

text \<open>
  Every handler below takes the outcome of its awaited store call as an argument.
  \<^verbatim>\<open>
  const fetchItems = async (listId: string) => {
    try {
      const querySnapshot = await getDocs(collection(db, 'shoppingLists', listId, 'items'));
      const itemsData = querySnapshot.docs.map(doc => ({ id: doc.id, ...doc.data() }));
      setItems(itemsData.sort((a, b) => a.name.localeCompare(b.name)));
    } catch (error) { console.error('Error fetching items:', error); }
  };
  \<close>
\<close>

definition fetchItems ::
  "string comparator \<Rightarrow> 'p shopping_item list awaited \<Rightarrow> 'p shopping_view \<Rightarrow> 'p shopping_view" where
  "fetchItems lc reply view =
     (case reply of
        Throws \<Rightarrow> view
      | Returns itemsData \<Rightarrow> view\<lparr>items := sortItems lc itemsData\<rparr>)"

text \<open>
  \<^verbatim>\<open>
  const fetchShoppingLists = async () => {
    try {
      const querySnapshot = await getDocs(collection(db, 'shoppingLists'));
      const lists = querySnapshot.docs.map(doc => ({ id: doc.id, ...doc.data() }));
      setShoppingLists(lists);
      if (lists.length > 0) { setCurrentList(lists[0]); fetchItems(lists[0].id); }
    } catch (error) { console.error('Error fetching shopping lists:', error); }
  };
  \<close>
\<close>

definition fetchShoppingLists ::
  "string comparator \<Rightarrow> shopping_list list awaited \<Rightarrow> 'p shopping_item list awaited
     \<Rightarrow> 'p shopping_view \<Rightarrow> 'p shopping_view" where
  "fetchShoppingLists lc listsReply itemsReply view =
     (case listsReply of
        Throws \<Rightarrow> view
      | Returns ls \<Rightarrow>
          (case ls of
             [] \<Rightarrow> view\<lparr>shoppingLists := ls\<rparr>
           | l # _ \<Rightarrow>
               fetchItems lc itemsReply (view\<lparr>shoppingLists := ls, currentList := Some l\<rparr>)))"

text \<open>
  \<^verbatim>\<open>
  const handleAddList = async (listName: string) => {
    try {
      const newList = { name: listName, items: [] };
      const docRef = await addDoc(collection(db, 'shoppingLists'), newList);
      const newListWithId = { ...newList, id: docRef.id };
      setShoppingLists([...shoppingLists, newListWithId]);
      setCurrentList(newListWithId);
    } catch (error) { ... }
  };
  \<close>
\<close>

definition handleAddList :: "string awaited \<Rightarrow> 'p shopping_view \<Rightarrow> string \<Rightarrow> 'p shopping_view" where
  "handleAddList reply view listName =
     (case reply of
        Throws \<Rightarrow> view
      | Returns docRefId \<Rightarrow>
          let newListWithId = \<lparr>list_id = docRefId, list_name = listName\<rparr>
          in view\<lparr>shoppingLists := shoppingLists view @ [newListWithId],
                  currentList := Some newListWithId\<rparr>)"

text \<open>
  The click on a list of the dropdown:
  \<^verbatim>\<open>
  onClick={() => { setCurrentList(list); setIsListDropdownOpen(false); fetchItems(list.id); }}
  \<close>
  \<open>fetchItems\<close> is declared inside the effect that runs on mount and is not in scope
  here: the two state updates are made, then the call raises and no items are loaded.
\<close>

definition selectList :: "'p shopping_view \<Rightarrow> shopping_list \<Rightarrow> 'p shopping_view \<times> js_error" where
  "selectList view l =
     (view\<lparr>currentList := Some l, isListDropdownOpen := False\<rparr>, ReferenceError)"

text \<open>
  \<^verbatim>\<open>
  const handleAddItem = async (newItem: Omit<ShoppingItem, 'id'>) => {
    if (!currentList) return;
    try {
      const docRef = await addDoc(collection(db, 'shoppingLists', currentList.id, 'items'), newItem);
      const newItemWithId = { ...newItem, id: docRef.id };
      setItems([...items, newItemWithId].sort((a, b) => a.name.localeCompare(b.name)));
      setIsAddModalOpen(false);
    } catch (error) { ... }
  };
  \<close>
  The \<open>shop_id\<close> of the argument \<open>newItem\<close> is not read.
\<close>

definition handleAddItem ::
  "string comparator \<Rightarrow> string awaited \<Rightarrow> 'p shopping_view \<Rightarrow> 'p shopping_item \<Rightarrow> 'p shopping_view" where
  "handleAddItem lc reply view newItem =
     (case currentList view of
        None \<Rightarrow> view
      | Some l \<Rightarrow>
          (case reply of
             Throws \<Rightarrow> view
           | Returns docRefId \<Rightarrow>
               let newItemWithId = newItem\<lparr>shop_id := docRefId\<rparr>
               in view\<lparr>items := sortItems lc (items view @ [newItemWithId]),
                       addModalOpen := False\<rparr>))"

text \<open>
  \<^verbatim>\<open>
  const handleSaveEdit = async (editedItem: ShoppingItem) => {
    if (!currentList) return;
    try {
      await updateDoc(doc(db, 'shoppingLists', currentList.id, 'items', editedItem.id), editedItem);
      setItems(items.map(item => item.id === editedItem.id ? editedItem : item)
                    .sort((a, b) => a.name.localeCompare(b.name)));
      setIsEditModalOpen(false);
      setSelectedItem(null);
    } catch (error) { ... }
  };
  \<close>
\<close>

definition handleSaveEdit ::
  "string comparator \<Rightarrow> unit awaited \<Rightarrow> 'p shopping_view \<Rightarrow> 'p shopping_item \<Rightarrow> 'p shopping_view" where
  "handleSaveEdit lc reply view editedItem =
     (case currentList view of
        None \<Rightarrow> view
      | Some l \<Rightarrow>
          (case reply of
             Throws \<Rightarrow> view
           | Returns u \<Rightarrow>
               view\<lparr>items := sortItems lc
                         (map (\<lambda>item. if shop_id item = shop_id editedItem then editedItem else item)
                            (items view)),
                    editModalOpen := False,
                    selectedItem := None\<rparr>))"

text \<open>
  \<^verbatim>\<open>
  const toggleComplete = async (item: ShoppingItem) => {
    if (!currentList) return;
    try {
      const updatedItem = { ...item, completed: !item.completed };
      await updateDoc(doc(db, 'shoppingLists', currentList.id, 'items', item.id),
                      { completed: !item.completed });
      setItems(items.map(i => i.id === item.id ? updatedItem : i)
                    .sort((a, b) => a.name.localeCompare(b.name)));
    } catch (error) { ... }
  };
  \<close>
\<close>

definition toggleComplete ::
  "string comparator \<Rightarrow> unit awaited \<Rightarrow> 'p shopping_view \<Rightarrow> 'p shopping_item \<Rightarrow> 'p shopping_view" where
  "toggleComplete lc reply view item =
     (case currentList view of
        None \<Rightarrow> view
      | Some l \<Rightarrow>
          let updatedItem = item\<lparr>completed := \<not> completed item\<rparr> in
          (case reply of
             Throws \<Rightarrow> view
           | Returns u \<Rightarrow>
               view\<lparr>items := sortItems lc
                         (map (\<lambda>i. if shop_id i = shop_id item then updatedItem else i)
                            (items view))\<rparr>))"

text \<open>
  \<^verbatim>\<open>
  const handleSelectItem = (itemId: string) => {
    setSelectedItems(prev =>
      prev.includes(itemId) ? prev.filter(id => id !== itemId) : [...prev, itemId]);
  };
  const handleDeleteSelected = async () => {
    if (!currentList || selectedItems.length === 0) return;
    try {
      for (const itemId of selectedItems) {
        await deleteDoc(doc(db, 'shoppingLists', currentList.id, 'items', itemId));
      }
      setItems(items.filter(item => !selectedItems.includes(item.id))
                    .sort((a, b) => a.name.localeCompare(b.name)));
      setSelectedItems([]);
    } catch (error) { ... }
  };
  const handleDeleteItem = async (itemId: string) => {
    if (!currentList) return;
    try {
      await deleteDoc(doc(db, 'shoppingLists', currentList.id, 'items', itemId));
      setItems(items.filter(item => item.id !== itemId)
                    .sort((a, b) => a.name.localeCompare(b.name)));
    } catch (error) { ... }
  };
  \<close>
  The reply of \<open>handleDeleteSelected\<close> is that of its loop: it throws when one of the
  \<open>deleteDoc\<close> calls throws.
\<close>

definition handleSelectItem :: "'p shopping_view \<Rightarrow> string \<Rightarrow> 'p shopping_view" where
  "handleSelectItem view itemId =
     view\<lparr>selectedItems :=
            (if itemId \<in> set (selectedItems view)
             then filter (\<lambda>i. i \<noteq> itemId) (selectedItems view)
             else selectedItems view @ [itemId])\<rparr>"

definition handleDeleteSelected ::
  "string comparator \<Rightarrow> unit awaited \<Rightarrow> 'p shopping_view \<Rightarrow> 'p shopping_view" where
  "handleDeleteSelected lc reply view =
     (case currentList view of
        None \<Rightarrow> view
      | Some l \<Rightarrow>
          if selectedItems view = [] then view
          else (case reply of
                  Throws \<Rightarrow> view
                | Returns u \<Rightarrow>
                    view\<lparr>items := sortItems lc
                              (filter (\<lambda>item. shop_id item \<notin> set (selectedItems view))
                                 (items view)),
                         selectedItems := []\<rparr>))"

definition handleDeleteItem ::
  "string comparator \<Rightarrow> unit awaited \<Rightarrow> 'p shopping_view \<Rightarrow> string \<Rightarrow> 'p shopping_view" where
  "handleDeleteItem lc reply view itemId =
     (case currentList view of
        None \<Rightarrow> view
      | Some l \<Rightarrow>
          (case reply of
             Throws \<Rightarrow> view
           | Returns u \<Rightarrow>
               view\<lparr>items := sortItems lc (filter (\<lambda>item. shop_id item \<noteq> itemId) (items view))\<rparr>))"

text \<open>
  The states of the page: the initial state of the component, and every state a
  handler produces from a state of the page, whatever its arguments and whatever the
  store answers. The remaining state setters of the page (opening and closing the
  modals and the dropdown) do not touch the items and are left out.
\<close>

inductive reachable :: "string comparator \<Rightarrow> 'p shopping_view \<Rightarrow> bool" for lc where
  mount: "reachable lc initialView"
| loadLists: "reachable lc v \<Longrightarrow> reachable lc (fetchShoppingLists lc listsReply itemsReply v)"
| addList: "reachable lc v \<Longrightarrow> reachable lc (handleAddList idReply v listName)"
| switchList: "reachable lc v \<Longrightarrow> reachable lc (fst (selectList v l))"
| addItem: "reachable lc v \<Longrightarrow> reachable lc (handleAddItem lc idReply v newItem)"
| saveEdit: "reachable lc v \<Longrightarrow> reachable lc (handleSaveEdit lc reply v editedItem)"
| toggle: "reachable lc v \<Longrightarrow> reachable lc (toggleComplete lc reply v item)"
| selectItem: "reachable lc v \<Longrightarrow> reachable lc (handleSelectItem v itemId)"
| deleteSelected: "reachable lc v \<Longrightarrow> reachable lc (handleDeleteSelected lc reply v)"
| deleteItem: "reachable lc v \<Longrightarrow> reachable lc (handleDeleteItem lc reply v itemId)"

definition sortedByName :: "string comparator \<Rightarrow> 'p shopping_item list \<Rightarrow> bool" where
  "sortedByName lc xs = Sorting_Algorithms.sorted (key shop_name lc) xs"

section \<open>Facts about strings\<close>

lemma includes_iff_sublist: "includes_str s t = sublist t s"
  by (induction s) (auto simp: sublist_Cons_right)

lemma includes_iff_split: "includes_str s t = (\<exists>pre post. s = pre @ t @ post)"
  by (simp add: includes_iff_sublist sublist_def)

lemma name_matches:
  "(case v of None \<Rightarrow> False | Some n \<Rightarrow> includes_str (toLowerCase n) (toLowerCase s)) =
     (\<exists>n. v = Some n \<and> containsIgnoringCase n s)"
  by (cases v) (simp_all add: includes_iff_split)

text \<open>
  The lower-casing on the letters: the 26 capitals of Basic Latin and the 30 of Latin-1
  go to their small letters; the small letters, the multiplication sign, the sharp s and
  the y with diaeresis stay.
\<close>

lemma toLowerCase_capitals:
  "toLowerCase ''ABCDEFGHIJKLMNOPQRSTUVWXYZ'' = ''abcdefghijklmnopqrstuvwxyz''"
  "toLowerCase [CHR 0xC0, CHR 0xC1, CHR 0xC2, CHR 0xC3, CHR 0xC4, CHR 0xC5, CHR 0xC6, CHR 0xC7,
                CHR 0xC8, CHR 0xC9, CHR 0xCA, CHR 0xCB, CHR 0xCC, CHR 0xCD, CHR 0xCE, CHR 0xCF,
                CHR 0xD0, CHR 0xD1, CHR 0xD2, CHR 0xD3, CHR 0xD4, CHR 0xD5, CHR 0xD6,
                CHR 0xD8, CHR 0xD9, CHR 0xDA, CHR 0xDB, CHR 0xDC, CHR 0xDD, CHR 0xDE]
     = [CHR 0xE0, CHR 0xE1, CHR 0xE2, CHR 0xE3, CHR 0xE4, CHR 0xE5, CHR 0xE6, CHR 0xE7,
        CHR 0xE8, CHR 0xE9, CHR 0xEA, CHR 0xEB, CHR 0xEC, CHR 0xED, CHR 0xEE, CHR 0xEF,
        CHR 0xF0, CHR 0xF1, CHR 0xF2, CHR 0xF3, CHR 0xF4, CHR 0xF5, CHR 0xF6,
        CHR 0xF8, CHR 0xF9, CHR 0xFA, CHR 0xFB, CHR 0xFC, CHR 0xFD, CHR 0xFE]"
  "toLowerCase [CHR ''a'', CHR ''z'', CHR ''@'', CHR ''['', CHR 0xD7, CHR 0xDF, CHR 0xE0, CHR 0xF7, CHR 0xFF]
     = [CHR ''a'', CHR ''z'', CHR ''@'', CHR ''['', CHR 0xD7, CHR 0xDF, CHR 0xE0, CHR 0xF7, CHR 0xFF]"
  by code_simp+

section \<open>Stock status of an ingredient\<close>

lemma checkIngredientInStock_Some:
  "checkIngredientInStock inventory (Some s) =
     (s \<noteq> [] \<and> (\<exists>item \<in> set inventory. \<exists>n. item_name item = Some n \<and> containsIgnoringCase n s))"
  by (simp add: checkIngredientInStock_def list_ex_iff name_matches)

text \<open>
  Claim C4. For every ingredient name and inventory (strings of code units below 256),
  \<open>checkIngredientInStock\<close> (the specification's \<open>isIngredientInStock\<close>) is true if and
  only if the name is defined and not empty and some inventory item has a name that
  contains it, both in lower case; for an undefined name and for the empty name it is
  false.
\<close>

theorem checkIngredientInStock_iff:
  "(checkIngredientInStock inventory ingredient \<longleftrightarrow>
      (\<exists>s. ingredient = Some s \<and> s \<noteq> [] \<and>
         (\<exists>item \<in> set inventory. \<exists>n. item_name item = Some n \<and> containsIgnoringCase n s)))
   \<and> \<not> checkIngredientInStock inventory None
   \<and> \<not> checkIngredientInStock inventory (Some [])"
proof (cases ingredient)
  case None
  then show ?thesis by (simp add: checkIngredientInStock_def)
next
  case (Some s)
  then show ?thesis
    using checkIngredientInStock_Some [of inventory s]
    by (simp add: checkIngredientInStock_def)
qed

theorem checkIngredientInStock_witness:
  "checkIngredientInStock [\<lparr>item_id = ''i1'', item_name = Some ''All-purpose FLOUR''\<rparr>] (Some ''Flour'')
   \<and> (\<exists>item \<in> set [\<lparr>item_id = ''i1'', item_name = Some ''All-purpose FLOUR''\<rparr>].
         \<exists>n. item_name item = Some n \<and> containsIgnoringCase n ''Flour'')
   \<and> \<not> checkIngredientInStock [\<lparr>item_id = ''i1'', item_name = Some ''All-purpose FLOUR''\<rparr>] (Some ''Saffron'')"
proof -
  let ?inv = "[\<lparr>item_id = ''i1'', item_name = Some ''All-purpose FLOUR''\<rparr>]"
  have yes: "checkIngredientInStock ?inv (Some ''Flour'')" by code_simp
  have no: "\<not> checkIngredientInStock ?inv (Some ''Saffron'')" by code_simp
  from yes checkIngredientInStock_iff [of ?inv "Some ''Flour''"]
  have "\<exists>item \<in> set ?inv. \<exists>n. item_name item = Some n \<and> containsIgnoringCase n ''Flour''"
    by simp
  with yes no show ?thesis by blast
qed

text \<open>An inventory item in capitals of Latin-1 matches the ingredient in small letters.\<close>

lemma checkIngredientInStock_latin1:
  "checkIngredientInStock
     [\<lparr>item_id = ''i1'', item_name = Some [CHR 0xC9, CHR ''C'', CHR ''L'', CHR ''A'', CHR ''I'', CHR ''R'']\<rparr>]
     (Some [CHR 0xE9, CHR ''c'', CHR ''l'', CHR ''a'', CHR ''i'', CHR ''r''])"
  by code_simp

section \<open>Stock status of a recipe\<close>

lemma checkIngredientInStock_truthy:
  "checkIngredientInStock inventory v \<Longrightarrow> truthy v"
  by (auto simp: truthy_def checkIngredientInStock_def split: option.splits if_splits)

text \<open>
  Claim C1, as the code has it. \<open>hasAllIngredientsInStock\<close> is true exactly when the
  recipe's ingredient array is present and every ingredient of it satisfies
  \<open>checkIngredientInStock\<close>. An empty array is present, so a recipe with no ingredients is
  reported as fully in stock; the answer is false for a missing array, and when some
  ingredient fails.
\<close>

theorem hasAllIngredientsInStock_iff:
  "hasAllIngredientsInStock inventory r \<longleftrightarrow>
     (\<exists>ings. ingredients r = Some ings \<and>
        (\<forall>i \<in> set ings. checkIngredientInStock inventory (ingredient_name i)))"
proof (cases "ingredients r")
  case None
  then show ?thesis by (simp add: hasAllIngredientsInStock_def)
next
  case (Some ings)
  then show ?thesis
    by (auto simp: hasAllIngredientsInStock_def list_all_iff
          intro: checkIngredientInStock_truthy)
qed

theorem hasAllIngredientsInStock_witness:
  "hasAllIngredientsInStock [\<lparr>item_id = ''i1'', item_name = Some ''All-purpose FLOUR''\<rparr>]
     \<lparr>recipe_id = ''r1'', recipe_name = ''Bread'', description = '''', cuisine = '''',
      category = '''', ingredients = Some [\<lparr>ingredient_name = Some ''flour''\<rparr>]\<rparr>
   \<and> \<not> hasAllIngredientsInStock [\<lparr>item_id = ''i1'', item_name = Some ''All-purpose FLOUR''\<rparr>]
     \<lparr>recipe_id = ''r2'', recipe_name = ''Paella'', description = '''', cuisine = '''',
      category = '''',
      ingredients = Some [\<lparr>ingredient_name = Some ''flour''\<rparr>, \<lparr>ingredient_name = Some ''saffron''\<rparr>]\<rparr>
   \<and> \<not> hasAllIngredientsInStock [\<lparr>item_id = ''i1'', item_name = Some ''All-purpose FLOUR''\<rparr>]
     \<lparr>recipe_id = ''r3'', recipe_name = ''Draft'', description = '''', cuisine = '''',
      category = '''', ingredients = None\<rparr>"
proof -
  let ?inv = "[\<lparr>item_id = ''i1'', item_name = Some ''All-purpose FLOUR''\<rparr>]"
  have f: "checkIngredientInStock ?inv (Some ''flour'')" by code_simp
  have s: "\<not> checkIngredientInStock ?inv (Some ''saffron'')" by code_simp
  show ?thesis
    using f s by (simp add: hasAllIngredientsInStock_iff)
qed

text \<open>
  The claim as the specification words it (a recipe whose ingredient list is empty is
  not in stock) fails on the empty array.
\<close>

theorem hasAllIngredientsInStock_empty_counterexample:
  "hasAllIngredientsInStock []
     \<lparr>recipe_id = ''r1'', recipe_name = ''Water'', description = '''', cuisine = '''',
      category = '''', ingredients = Some []\<rparr> = True"
  by (simp add: hasAllIngredientsInStock_def)

section \<open>The filter of the Recipes page\<close>

lemma matchesSearch_Some:
  assumes "ingredients r = Some ings"
  shows "matchesSearch searchTerm r =
     Inr (containsIgnoringCase (recipe_name r) searchTerm \<or>
          containsIgnoringCase (description r) searchTerm \<or>
          containsIgnoringCase (cuisine r) searchTerm \<or>
          (\<exists>i \<in> set ings. \<exists>n. ingredient_name i = Some n \<and> containsIgnoringCase n searchTerm))"
  using assms
  by (simp add: matchesSearch_def list_ex_iff name_matches includes_iff_split)

text \<open>
  On a recipe whose ingredient array is present the callback is the conjunction the
  specification describes: the search term occurs, ignoring case, in the name, the
  description, the cuisine or the name of an ingredient; the category filter is empty or
  equal to the recipe's category; the stock toggle is off or
  \<open>hasAllIngredientsInStock\<close> holds.
\<close>

lemma recipeFilter_array_present:
  assumes "ingredients r = Some ings"
  shows "recipeFilter inventory searchTerm categoryFilter showOnlyInStock r =
     Inr ((containsIgnoringCase (recipe_name r) searchTerm \<or>
           containsIgnoringCase (description r) searchTerm \<or>
           containsIgnoringCase (cuisine r) searchTerm \<or>
           (\<exists>i \<in> set ings. \<exists>n. ingredient_name i = Some n \<and> containsIgnoringCase n searchTerm))
          \<and> (categoryFilter = [] \<or> category r = categoryFilter)
          \<and> (\<not> showOnlyInStock \<or> hasAllIngredientsInStock inventory r))"
  by (simp add: recipeFilter_def matchesSearch_Some [OF assms])

text \<open>
  On a recipe without the array, the callback answers only when the name, the
  description or the cuisine already matches; otherwise reading \<open>some\<close> of the missing
  array raises.
\<close>

lemma recipeFilter_array_missing:
  assumes "ingredients r = None"
  shows "recipeFilter inventory searchTerm categoryFilter showOnlyInStock r =
     (if containsIgnoringCase (recipe_name r) searchTerm \<or>
         containsIgnoringCase (description r) searchTerm \<or>
         containsIgnoringCase (cuisine r) searchTerm
      then Inr ((categoryFilter = [] \<or> category r = categoryFilter) \<and> \<not> showOnlyInStock)
      else Inl TypeError)"
  using assms
  by (simp add: recipeFilter_def matchesSearch_def includes_iff_split
        hasAllIngredientsInStock_def)

text \<open>
  With every ingredient array present, the filter over the list raises nothing and keeps
  exactly the recipes its callback accepts, in their order.
\<close>

lemma filteredRecipes_filter:
  assumes "\<forall>r \<in> set rs. ingredients r \<noteq> None"
  shows "filteredRecipes inventory searchTerm categoryFilter showOnlyInStock rs =
     Inr (filter (\<lambda>r. recipeFilter inventory searchTerm categoryFilter showOnlyInStock r = Inr True) rs)"
  using assms
proof (induction rs)
  case Nil
  then show ?case by simp
next
  case (Cons r rs)
  then obtain ings where "ingredients r = Some ings" by auto
  then obtain b where "recipeFilter inventory searchTerm categoryFilter showOnlyInStock r = Inr b"
    by (simp add: recipeFilter_def matchesSearch_Some)
  with Cons show ?case by simp
qed

text \<open>
  Claim C9, on the code. The claim is for every recipe. A recipe document that has no
  ingredient array, searched for a term that its name, description and cuisine do not
  contain, makes the callback raise a \<open>TypeError\<close>, and with it the whole filter: no
  list of recipes is produced at all, where the claim says that this recipe does not
  pass (as the same record with an empty array does not) and that the others are judged
  on their own. \<open>hasAllIngredientsInStock\<close>, which the same callback calls, guards this
  very case and answers false.
\<close>

theorem filteredRecipes_missing_array:
  "recipeFilter [] ''saff'' '''' False
     \<lparr>recipe_id = ''r2'', recipe_name = ''Draft'', description = ''To do'', cuisine = '''',
      category = ''Dinner'', ingredients = None\<rparr> = Inl TypeError
   \<and> filteredRecipes [] ''saff'' '''' False
     [\<lparr>recipe_id = ''r1'', recipe_name = ''Paella'', description = ''Rice dish'',
       cuisine = ''Spanish'', category = ''Dinner'',
       ingredients = Some [\<lparr>ingredient_name = Some ''Saffron''\<rparr>]\<rparr>,
      \<lparr>recipe_id = ''r2'', recipe_name = ''Draft'', description = ''To do'', cuisine = '''',
       category = ''Dinner'', ingredients = None\<rparr>] = Inl TypeError
   \<and> recipeFilter [] ''saff'' '''' False
     \<lparr>recipe_id = ''r2'', recipe_name = ''Draft'', description = ''To do'', cuisine = '''',
      category = ''Dinner'', ingredients = Some []\<rparr> = Inr False
   \<and> filteredRecipes [] ''saff'' '''' False
     [\<lparr>recipe_id = ''r1'', recipe_name = ''Paella'', description = ''Rice dish'',
       cuisine = ''Spanish'', category = ''Dinner'',
       ingredients = Some [\<lparr>ingredient_name = Some ''Saffron''\<rparr>]\<rparr>,
      \<lparr>recipe_id = ''r2'', recipe_name = ''Draft'', description = ''To do'', cuisine = '''',
       category = ''Dinner'', ingredients = Some []\<rparr>]
     = Inr [\<lparr>recipe_id = ''r1'', recipe_name = ''Paella'', description = ''Rice dish'',
       cuisine = ''Spanish'', category = ''Dinner'',
       ingredients = Some [\<lparr>ingredient_name = Some ''Saffron''\<rparr>]\<rparr>]
   \<and> hasAllIngredientsInStock []
     \<lparr>recipe_id = ''r2'', recipe_name = ''Draft'', description = ''To do'', cuisine = '''',
      category = ''Dinner'', ingredients = None\<rparr> = False"
  by code_simp

theorem filteredRecipes_missing_array_witness:
  "filteredRecipes [] ''saff'' '''' False
     [\<lparr>recipe_id = ''r1'', recipe_name = ''Paella'', description = ''Rice dish'',
       cuisine = ''Spanish'', category = ''Dinner'',
       ingredients = Some [\<lparr>ingredient_name = Some ''Saffron''\<rparr>]\<rparr>,
      \<lparr>recipe_id = ''r2'', recipe_name = ''Draft'', description = ''To do'', cuisine = '''',
       category = ''Dinner'', ingredients = None\<rparr>] = Inl TypeError"
  using filteredRecipes_missing_array by (elim conjE)

section \<open>Adding the missing ingredients\<close>

lemma addEach_all_resolve:
  assumes "length missing \<le> length outcomes" and "\<forall>ok \<in> set outcomes. ok"
  shows "addEach outcomes listId missing store =
           (store(listId := store listId @ map newItemDoc missing), True)"
  using assms
proof (induction missing arbitrary: outcomes store)
  case Nil
  then show ?case by simp
next
  case (Cons i rest)
  then obtain ok os where o: "outcomes = ok # os" by (cases outcomes) auto
  define store' where "store' = store(listId := store listId @ [newItemDoc i])"
  from Cons.prems o have ok: "ok" and len: "length rest \<le> length os"
    and all: "\<forall>ok \<in> set os. ok" by auto
  have "addEach outcomes listId (i # rest) store = addEach os listId rest store'"
    using o ok by (simp add: store'_def)
  also have "\<dots> = (store'(listId := store' listId @ map newItemDoc rest), True)"
    by (rule Cons.IH [OF len all])
  also have "store'(listId := store' listId @ map newItemDoc rest) =
               store(listId := store listId @ map newItemDoc (i # rest))"
    by (simp add: store'_def)
  finally show ?case .
qed

text \<open>Without an active list the handler returns at once and writes nothing.\<close>

lemma handleAddMissingIngredients_no_list:
  "handleAddMissingIngredients outcomes inventory None r store = Inr (store, False)"
  by (simp add: handleAddMissingIngredients_def)

text \<open>
  Claim C5. With an active shopping list and every write resolving, the workflow adds to
  the \<open>items\<close> sub-collection of that list exactly one document per ingredient of the
  recipe that fails \<open>checkIngredientInStock\<close>, in the recipe's order, each with the
  ingredient's name, category \<open>Ingredients\<close>, \<open>completed = false\<close> and no products;
  the documents already there and the other lists are untouched, and the loop runs to its
  end.
\<close>

theorem handleAddMissingIngredients_writes:
  assumes "cur = Some l" and "ingredients r = Some ings"
    and "length (missingIngredients inventory ings) \<le> length outcomes"
    and "\<forall>ok \<in> set outcomes. ok"
  shows "handleAddMissingIngredients outcomes inventory cur r store =
     Inr (store(list_id l := store (list_id l) @
            map (\<lambda>i. \<lparr>doc_name = ingredient_name i, doc_category = ''Ingredients'',
                       doc_completed = False, doc_products = []\<rparr>)
              (filter (\<lambda>i. \<not> checkIngredientInStock inventory (ingredient_name i)) ings)),
          True)"
proof -
  have docs: "map newItemDoc (missingIngredients inventory ings) =
          map (\<lambda>i. \<lparr>doc_name = ingredient_name i, doc_category = ''Ingredients'',
                       doc_completed = False, doc_products = []\<rparr>)
              (filter (\<lambda>i. \<not> checkIngredientInStock inventory (ingredient_name i)) ings)"
    by (simp add: missingIngredients_def newItemDoc_def)
  have "handleAddMissingIngredients outcomes inventory cur r store =
          Inr (addEach outcomes (list_id l) (missingIngredients inventory ings) store)"
    using assms(1,2) by (simp add: handleAddMissingIngredients_def)
  also have "addEach outcomes (list_id l) (missingIngredients inventory ings) store =
      (store(list_id l := store (list_id l) @ map newItemDoc (missingIngredients inventory ings)), True)"
    by (rule addEach_all_resolve [OF assms(3,4)])
  finally show ?thesis unfolding docs .
qed

theorem handleAddMissingIngredients_witness:
  "(case handleAddMissingIngredients [True]
           [\<lparr>item_id = ''i1'', item_name = Some ''Flour''\<rparr>]
           (Some \<lparr>list_id = ''L1'', list_name = ''Weekly''\<rparr>)
           \<lparr>recipe_id = ''r1'', recipe_name = ''Paella'', description = '''', cuisine = '''',
            category = '''',
            ingredients = Some [\<lparr>ingredient_name = Some ''Flour''\<rparr>,
                                \<lparr>ingredient_name = Some ''Saffron''\<rparr>]\<rparr>
           (\<lambda>listId. ([] :: unit item_doc list)) of
      Inl e \<Rightarrow> False
    | Inr (store', alerted) \<Rightarrow>
        alerted \<and>
        store' ''L1'' = [\<lparr>doc_name = Some ''Saffron'', doc_category = ''Ingredients'',
                          doc_completed = False, doc_products = []\<rparr>] \<and>
        store' ''L2'' = [])"
proof -
  let ?inv = "[\<lparr>item_id = ''i1'', item_name = Some ''Flour''\<rparr>]"
  let ?ings = "[\<lparr>ingredient_name = Some ''Flour''\<rparr>, \<lparr>ingredient_name = Some ''Saffron''\<rparr>]"
  let ?r = "\<lparr>recipe_id = ''r1'', recipe_name = ''Paella'', description = '''', cuisine = '''',
            category = '''', ingredients = Some ?ings\<rparr>"
  let ?l = "\<lparr>list_id = ''L1'', list_name = ''Weekly''\<rparr>"
  have f: "checkIngredientInStock ?inv (Some ''Flour'')" by code_simp
  have s: "\<not> checkIngredientInStock ?inv (Some ''Saffron'')" by code_simp
  have h1: "Some ?l = Some ?l" by simp
  have h2: "ingredients ?r = Some ?ings" by simp
  have h3: "length (missingIngredients ?inv ?ings) \<le> length [True]"
    using f s by (simp add: missingIngredients_def)
  have h4: "\<forall>ok \<in> set [True]. ok" by simp
  show ?thesis
    using handleAddMissingIngredients_writes [OF h1 h2 h3 h4, of "\<lambda>listId. ([] :: unit item_doc list)"] f s
    by simp
qed

section \<open>Scheduling a menu onto a date\<close>

text \<open>
  The handler writes the calendar document before it fetches the menu, and it does not
  test \<open>exists()\<close>. Three ways the fetch can go wrong or not happen at all:
\<close>

lemma handleSaveMenu_add_throws:
  "handleSaveMenu store Throws view date menuId = (store, view)"
  by (simp add: handleSaveMenu_def)

lemma handleSaveMenu_fetch_throws:
  assumes "menus store menuId = Throws"
  shows "handleSaveMenu store (Returns newId) view date menuId =
     (store\<lparr>calendar_docs := calendar_docs store @ [(newId, \<lparr>cal_date = date, cal_menuId = menuId\<rparr>)]\<rparr>,
      view)"
  using assms by (simp add: handleSaveMenu_def)

lemma handleSaveMenu_no_menu:
  assumes "menus store menuId = Returns None"
  shows "handleSaveMenu store (Returns newId) view date menuId =
     (store\<lparr>calendar_docs := calendar_docs store @ [(newId, \<lparr>cal_date = date, cal_menuId = menuId\<rparr>)]\<rparr>,
      view\<lparr>calendarEntries := calendarEntries view @
              [\<lparr>entry_id = newId, entry_date = date, entry_menuId = menuId,
                entry_menu = \<lparr>menu_id = menuId, menu_data = None\<rparr>\<rparr>],
           isAddModalOpen := False, selectedDateForModal := None\<rparr>)"
  using assms by (simp add: handleSaveMenu_def)

text \<open>
  Claim C2, on the code. Scheduling the id \<open>ghost\<close>, which names no menu, stores the
  calendar document and adds to the entries in memory an entry whose menu has an id and
  no fields; scheduling the id \<open>down\<close>, whose fetch throws, stores the calendar document
  and leaves the entries in memory as they were. The claim asks that neither a stored
  document nor an entry in memory be created in both cases.
\<close>

theorem handleSaveMenu_unknown_menu:
  "handleSaveMenu
     \<lparr>menus = menusCollection [(''m1'', ''Sunday roast'')] [''down''],
      calendar_docs = [], calendar_readable = True\<rparr>
     (Returns ''c1'')
     \<lparr>calendarEntries = [], isAddModalOpen = True, selectedDateForModal = Some ''2024-01-10''\<rparr>
     ''2024-01-10'' ''ghost''
   = (\<lparr>menus = menusCollection [(''m1'', ''Sunday roast'')] [''down''],
       calendar_docs = [(''c1'', \<lparr>cal_date = ''2024-01-10'', cal_menuId = ''ghost''\<rparr>)],
       calendar_readable = True\<rparr>,
      \<lparr>calendarEntries =
         [\<lparr>entry_id = ''c1'', entry_date = ''2024-01-10'', entry_menuId = ''ghost'',
           entry_menu = \<lparr>menu_id = ''ghost'', menu_data = None\<rparr>\<rparr>],
       isAddModalOpen = False, selectedDateForModal = None\<rparr>)
   \<and> handleSaveMenu
     \<lparr>menus = menusCollection [(''m1'', ''Sunday roast'')] [''down''],
      calendar_docs = [], calendar_readable = True\<rparr>
     (Returns ''c1'')
     \<lparr>calendarEntries = [], isAddModalOpen = True, selectedDateForModal = Some ''2024-01-10''\<rparr>
     ''2024-01-10'' ''down''
   = (\<lparr>menus = menusCollection [(''m1'', ''Sunday roast'')] [''down''],
       calendar_docs = [(''c1'', \<lparr>cal_date = ''2024-01-10'', cal_menuId = ''down''\<rparr>)],
       calendar_readable = True\<rparr>,
      \<lparr>calendarEntries = [], isAddModalOpen = True, selectedDateForModal = Some ''2024-01-10''\<rparr>)"
  by (simp add: handleSaveMenu_def menusCollection_def)

section \<open>Loading the calendar\<close>

lemma kept_ids:
  "map entry_id (map the (filter (\<lambda>entry. entry \<noteq> None) (map (fetchEntry store) docs))) =
     map fst (filter (resolves store) docs)"
  by (induction docs)
     (auto simp: fetchEntry_def resolves_def Let_def split: awaited.splits option.splits)

lemma kept_have_menu:
  assumes "e \<in> set (map the (filter (\<lambda>entry. entry \<noteq> None) (map (fetchEntry store) docs)))"
  shows "\<exists>m. menu_data (entry_menu e) = Some m \<and> menu_id (entry_menu e) = entry_menuId e \<and>
             menus store (entry_menuId e) = Returns (Some m)"
proof -
  from assms obtain d where "d \<in> set docs" and "fetchEntry store d = Some e"
    by auto
  then show ?thesis
    by (auto simp: fetchEntry_def Let_def split: awaited.splits option.splits)
qed

lemma fetchCalendarEntries_unreadable:
  "\<not> calendar_readable store \<Longrightarrow> fetchCalendarEntries store view = view"
  by (simp add: fetchCalendarEntries_def)

text \<open>
  Claim C10. When the calendar collection can be read, the load raises nothing and the
  entries it puts in memory are, in order, those of the stored documents whose menu id
  resolves to an existing menu; a document whose menu is missing or whose menu fetch
  throws leaves no entry. Every entry kept carries the fetched menu: its fields are
  present and are those the store returned for the entry's menu id.
\<close>

theorem fetchCalendarEntries_drops_unresolved:
  assumes "calendar_readable store"
  shows "map entry_id (calendarEntries (fetchCalendarEntries store view)) =
           map fst (filter (resolves store) (calendar_docs store))
     \<and> (\<forall>e \<in> set (calendarEntries (fetchCalendarEntries store view)).
           \<exists>m. menu_data (entry_menu e) = Some m \<and> menu_id (entry_menu e) = entry_menuId e \<and>
               menus store (entry_menuId e) = Returns (Some m))"
proof -
  have loaded: "calendarEntries (fetchCalendarEntries store view) =
      map the (filter (\<lambda>entry. entry \<noteq> None) (map (fetchEntry store) (calendar_docs store)))"
    using assms by (simp add: fetchCalendarEntries_def)
  show ?thesis
    unfolding loaded by (intro conjI ballI kept_ids kept_have_menu)
qed

theorem fetchCalendarEntries_witness:
  "calendar_readable
     \<lparr>menus = menusCollection [(''m1'', ''Sunday roast'')] [''down''],
      calendar_docs = [(''c1'', \<lparr>cal_date = ''2024-01-10'', cal_menuId = ''m1''\<rparr>),
                       (''c2'', \<lparr>cal_date = ''2024-01-11'', cal_menuId = ''ghost''\<rparr>),
                       (''c3'', \<lparr>cal_date = ''2024-01-12'', cal_menuId = ''down''\<rparr>)],
      calendar_readable = True\<rparr>
   \<and> calendarEntries (fetchCalendarEntries
     \<lparr>menus = menusCollection [(''m1'', ''Sunday roast'')] [''down''],
      calendar_docs = [(''c1'', \<lparr>cal_date = ''2024-01-10'', cal_menuId = ''m1''\<rparr>),
                       (''c2'', \<lparr>cal_date = ''2024-01-11'', cal_menuId = ''ghost''\<rparr>),
                       (''c3'', \<lparr>cal_date = ''2024-01-12'', cal_menuId = ''down''\<rparr>)],
      calendar_readable = True\<rparr>
     \<lparr>calendarEntries = [], isAddModalOpen = False, selectedDateForModal = None\<rparr>)
     = [\<lparr>entry_id = ''c1'', entry_date = ''2024-01-10'', entry_menuId = ''m1'',
         entry_menu = \<lparr>menu_id = ''m1'', menu_data = Some ''Sunday roast''\<rparr>\<rparr>]
   \<and> map fst (filter (resolves
     \<lparr>menus = menusCollection [(''m1'', ''Sunday roast'')] [''down''],
      calendar_docs = [(''c1'', \<lparr>cal_date = ''2024-01-10'', cal_menuId = ''m1''\<rparr>),
                       (''c2'', \<lparr>cal_date = ''2024-01-11'', cal_menuId = ''ghost''\<rparr>),
                       (''c3'', \<lparr>cal_date = ''2024-01-12'', cal_menuId = ''down''\<rparr>)],
      calendar_readable = True\<rparr>)
       [(''c1'', \<lparr>cal_date = ''2024-01-10'', cal_menuId = ''m1''\<rparr>),
        (''c2'', \<lparr>cal_date = ''2024-01-11'', cal_menuId = ''ghost''\<rparr>),
        (''c3'', \<lparr>cal_date = ''2024-01-12'', cal_menuId = ''down''\<rparr>)]) = [''c1'']"
proof -
  let ?store = "\<lparr>menus = menusCollection [(''m1'', ''Sunday roast'')] [''down''],
      calendar_docs = [(''c1'', \<lparr>cal_date = ''2024-01-10'', cal_menuId = ''m1''\<rparr>),
                       (''c2'', \<lparr>cal_date = ''2024-01-11'', cal_menuId = ''ghost''\<rparr>),
                       (''c3'', \<lparr>cal_date = ''2024-01-12'', cal_menuId = ''down''\<rparr>)],
      calendar_readable = True\<rparr>"
  let ?view = "\<lparr>calendarEntries = [], isAddModalOpen = False, selectedDateForModal = None\<rparr>
                 :: string calendar_view"
  have h: "calendar_readable ?store" by simp
  have run: "calendarEntries (fetchCalendarEntries ?store ?view)
     = [\<lparr>entry_id = ''c1'', entry_date = ''2024-01-10'', entry_menuId = ''m1'',
         entry_menu = \<lparr>menu_id = ''m1'', menu_data = Some ''Sunday roast''\<rparr>\<rparr>]"
    by (simp add: fetchCalendarEntries_def fetchEntry_def menusCollection_def)
  from fetchCalendarEntries_drops_unresolved [OF h, of ?view] run h
  show ?thesis by simp
qed

section \<open>Expiration status\<close>

lemma msPerDay_pos: "0 < msPerDay"
  by (simp add: msPerDay_def)

lemma days_nonneg_iff: "0 \<le> (t - now) div msPerDay \<longleftrightarrow> now \<le> t"
  using pos_imp_zdiv_nonneg_iff [OF msPerDay_pos, of "t - now"] by simp

lemma whole_days_back:
  assumes "0 \<le> m" and "m < msPerDay"
  shows "(k * msPerDay - m) div msPerDay = (if m = 0 then k else k - 1)"
proof (cases "m = 0")
  case True
  then show ?thesis using msPerDay_pos by simp
next
  case False
  have "k * msPerDay - m = msPerDay * (k - 1) + (msPerDay - m)"
    by (simp add: algebra_simps)
  moreover have "0 \<le> msPerDay - m" and "msPerDay - m < msPerDay"
    using assms False by simp_all
  ultimately have "(k * msPerDay - m) div msPerDay = k - 1"
    by (rule int_div_pos_eq)
  with False show ?thesis by simp
qed

lemma isExpired_parsed:
  "d \<noteq> [] \<Longrightarrow> parseDate d = Some t \<Longrightarrow> isExpired parseDate now (Some d) = (t < now)"
  by (simp add: isExpired_def)

lemma isExpiringSoon_parsed:
  "d \<noteq> [] \<Longrightarrow> parseDate d = Some t \<Longrightarrow>
     isExpiringSoon parseDate now (Some d) =
       (0 \<le> (t - now) div msPerDay \<and> (t - now) div msPerDay \<le> 7)"
  by (auto simp: isExpiringSoon_def msPerDay_def Let_def)

lemma expirationStatus_parsed:
  assumes "d \<noteq> []" and "parseDate d = Some t"
  shows "expirationStatus parseDate now (Some d) =
     (if t < now then Expired
      else if (t - now) div msPerDay \<le> 7 then ExpiringSoon else NoStatus)"
  using assms days_nonneg_iff [of t now]
  by (simp add: expirationStatus_def isExpired_parsed isExpiringSoon_parsed)

text \<open>
  Claim C3, as the code has it. The status is decided on instants, in milliseconds, and
  not on calendar days. It is \<open>NoStatus\<close> when no date is present. For a date that
  parses to the instant \<open>t\<close>, it is \<open>Expired\<close> exactly when \<open>t\<close> is strictly before the
  current instant, and \<open>ExpiringSoon\<close> exactly when the whole number of days in
  \<open>t - now\<close>, rounded down, is between 0 and 7. With midnight UTC of the current day
  written \<open>now - now mod msPerDay\<close>: yesterday is \<open>Expired\<close>; today is \<open>Expired\<close> as
  soon as any time of the day has passed, and \<open>ExpiringSoon\<close> only at the instant of
  midnight; today + 7 is \<open>ExpiringSoon\<close>; today + 8 is \<open>ExpiringSoon\<close> too, and
  \<open>NoStatus\<close> only at the instant of midnight.
\<close>

theorem expirationStatus_by_instant:
  assumes "d \<noteq> []" and "parseDate d = Some t"
  shows "expirationStatus parseDate now None = NoStatus
    \<and> (expirationStatus parseDate now (Some d) = Expired \<longleftrightarrow> t < now)
    \<and> (expirationStatus parseDate now (Some d) = ExpiringSoon \<longleftrightarrow>
          0 \<le> (t - now) div msPerDay \<and> (t - now) div msPerDay \<le> 7)
    \<and> (t = now - now mod msPerDay - msPerDay \<longrightarrow>
          expirationStatus parseDate now (Some d) = Expired)
    \<and> (t = now - now mod msPerDay \<longrightarrow>
          expirationStatus parseDate now (Some d) =
            (if now mod msPerDay = 0 then ExpiringSoon else Expired))
    \<and> (t = now - now mod msPerDay + 7 * msPerDay \<longrightarrow>
          expirationStatus parseDate now (Some d) = ExpiringSoon)
    \<and> (t = now - now mod msPerDay + 8 * msPerDay \<longrightarrow>
          expirationStatus parseDate now (Some d) =
            (if now mod msPerDay = 0 then NoStatus else ExpiringSoon))"
proof -
  let ?m = "now mod msPerDay"
  have m: "0 \<le> ?m" "?m < msPerDay"
    using msPerDay_pos by simp_all
  note st = expirationStatus_parsed [where parseDate = parseDate and now = now, OF assms]
  have none: "expirationStatus parseDate now None = NoStatus"
    by (simp add: expirationStatus_def isExpired_def isExpiringSoon_def)
  have expired: "expirationStatus parseDate now (Some d) = Expired \<longleftrightarrow> t < now"
    by (simp add: st)
  have soon: "expirationStatus parseDate now (Some d) = ExpiringSoon \<longleftrightarrow>
          0 \<le> (t - now) div msPerDay \<and> (t - now) div msPerDay \<le> 7"
    using days_nonneg_iff [of t now] by (auto simp: st)
  have yesterday: "expirationStatus parseDate now (Some d) = Expired"
    if "t = now - ?m - msPerDay"
  proof -
    have "t < now" using that m msPerDay_pos by linarith
    then show ?thesis by (simp add: st)
  qed
  have today: "expirationStatus parseDate now (Some d) =
            (if ?m = 0 then ExpiringSoon else Expired)"
    if "t = now - ?m"
  proof -
    have "t - now = 0 * msPerDay - ?m" using that by simp
    then have "(t - now) div msPerDay = (if ?m = 0 then 0 else - 1)"
      using whole_days_back [OF m, of 0] by simp
    moreover have "t < now \<longleftrightarrow> ?m \<noteq> 0" using that m by auto
    ultimately show ?thesis by (simp add: st)
  qed
  have week: "expirationStatus parseDate now (Some d) = ExpiringSoon"
    if "t = now - ?m + 7 * msPerDay"
  proof -
    have "t - now = 7 * msPerDay - ?m" using that by simp
    then have "(t - now) div msPerDay = (if ?m = 0 then 7 else 6)"
      using whole_days_back [OF m, of 7] by simp
    moreover have "\<not> t < now" using that m by simp
    ultimately show ?thesis by (simp add: st)
  qed
  have eight: "expirationStatus parseDate now (Some d) =
            (if ?m = 0 then NoStatus else ExpiringSoon)"
    if "t = now - ?m + 8 * msPerDay"
  proof -
    have "t - now = 8 * msPerDay - ?m" using that by simp
    then have "(t - now) div msPerDay = (if ?m = 0 then 8 else 7)"
      using whole_days_back [OF m, of 8] by simp
    moreover have "\<not> t < now" using that m by simp
    ultimately show ?thesis by (simp add: st)
  qed
  from none expired soon yesterday today week eight show ?thesis by blast
qed

theorem expirationStatus_witness:
  "''2024-01-17'' \<noteq> [] \<and> map_of sampleDates ''2024-01-17'' = Some 1705449600000
   \<and> 1705449600000 = 1704880800000 - 1704880800000 mod msPerDay + 7 * msPerDay
   \<and> expirationStatus (map_of sampleDates) 1704880800000 (Some ''2024-01-17'') = ExpiringSoon
   \<and> \<not> (1705449600000 < (1704880800000 :: int))
   \<and> (1705449600000 - 1704880800000) div msPerDay = 6"
proof -
  have h1: "''2024-01-17'' \<noteq> []" by simp
  have h2: "map_of sampleDates ''2024-01-17'' = Some 1705449600000"
    by (simp add: sampleDates_def)
  have h3: "(1705449600000 :: int) = 1704880800000 - 1704880800000 mod msPerDay + 7 * msPerDay"
    by (simp add: msPerDay_def)
  have h4: "(1705449600000 - 1704880800000) div msPerDay = 6"
    by (simp add: msPerDay_def)
  from expirationStatus_by_instant [where parseDate = "map_of sampleDates" and now = 1704880800000, OF h1 h2] h3
  have "expirationStatus (map_of sampleDates) 1704880800000 (Some ''2024-01-17'') = ExpiringSoon"
    by blast
  with h1 h2 h3 h4 show ?thesis by simp
qed

text \<open>
  The claim as the specification words it fails at ten in the morning (UTC) of
  2024-01-10: the date 2024-01-10, today, is \<open>Expired\<close> and not \<open>ExpiringSoon\<close>, and the
  date 2024-01-18, today + 8, is \<open>ExpiringSoon\<close> and not \<open>NoStatus\<close>.
\<close>

theorem expirationStatus_today_counterexample:
  "expirationStatus (map_of sampleDates) 1704880800000 (Some ''2024-01-10'') = Expired
   \<and> expirationStatus (map_of sampleDates) 1704880800000 (Some ''2024-01-18'') = ExpiringSoon"
  by (simp add: expirationStatus_def isExpired_def isExpiringSoon_def sampleDates_def)

section \<open>Total times of a menu\<close>

lemma bits_le: "n < 2 ^ k \<Longrightarrow> bits n \<le> k"
proof (induction k arbitrary: n)
  case 0
  then show ?case by (simp add: bits.simps)
next
  case (Suc k)
  show ?case
  proof (cases "n \<le> 0")
    case True
    then show ?thesis by (simp add: bits.simps)
  next
    case False
    from Suc.prems have "n div 2 < 2 ^ k" by simp
    then have "bits (n div 2) \<le> k" by (rule Suc.IH)
    with False show ?thesis by (simp add: bits.simps [of n])
  qed
qed

lemma roundMagnitude_small:
  assumes "n < 2 ^ 53"
  shows "roundMagnitude n = n"
proof -
  have "bits n - 53 = 0" using bits_le [OF assms] by simp
  then show ?thesis by (simp add: roundMagnitude_def)
qed

lemma roundMagnitude_top: "roundMagnitude (2 ^ 53) = 2 ^ 53"
  by code_simp

lemma roundMagnitude_exact:
  assumes "0 \<le> n" and "n \<le> 2 ^ 53"
  shows "roundMagnitude n = n"
proof (cases "n = 2 ^ 53")
  case True
  then show ?thesis by (simp only: roundMagnitude_top)
next
  case False
  with assms have "n < 2 ^ 53" by simp
  then show ?thesis by (rule roundMagnitude_small)
qed

lemma toNumber_exact:
  assumes "\<bar>k\<bar> \<le> 2 ^ 53"
  shows "toNumber k = Finite k"
proof -
  have m: "roundMagnitude \<bar>k\<bar> = \<bar>k\<bar>"
    using assms by (intro roundMagnitude_exact) simp_all
  have "(2 :: int) ^ 53 < 2 ^ 1024" by simp
  with assms have "\<not> 2 ^ 1024 \<le> \<bar>k\<bar>" by linarith
  then show ?thesis by (auto simp: toNumber_def m Let_def)
qed

lemma foldl_addNumber_exact:
  assumes "\<forall>x \<in> set xs. \<exists>k. f x = Finite k"
    and "\<bar>a\<bar> + (\<Sum>x\<leftarrow>xs. \<bar>wholeOf (f x)\<bar>) \<le> 2 ^ 53"
  shows "foldl (\<lambda>total x. addNumber total (f x)) (Finite a) xs =
           Finite (a + (\<Sum>x\<leftarrow>xs. wholeOf (f x)))"
  using assms
proof (induction xs arbitrary: a)
  case Nil
  then show ?case by simp
next
  case (Cons x xs)
  then obtain k where k: "f x = Finite k" by auto
  have bound: "\<bar>a + k\<bar> + (\<Sum>x\<leftarrow>xs. \<bar>wholeOf (f x)\<bar>) \<le> 2 ^ 53"
    using Cons.prems(2) k by (simp add: wholeOf_def)
  have nonneg: "0 \<le> (\<Sum>x\<leftarrow>xs. \<bar>wholeOf (f x)\<bar>)"
    by (rule sum_list_nonneg) auto
  with bound have "\<bar>a + k\<bar> \<le> 2 ^ 53" by linarith
  then have step: "addNumber (Finite a) (f x) = Finite (a + k)"
    by (simp add: k toNumber_exact)
  from Cons.prems(1) have rest: "\<forall>x \<in> set xs. \<exists>k. f x = Finite k" by simp
  have "foldl (\<lambda>total x. addNumber total (f x)) (Finite a) (x # xs) =
          foldl (\<lambda>total x. addNumber total (f x)) (addNumber (Finite a) (f x)) xs"
    by simp
  also have "\<dots> = foldl (\<lambda>total x. addNumber total (f x)) (Finite (a + k)) xs"
    by (simp only: step)
  also have "\<dots> = Finite (a + k + (\<Sum>x\<leftarrow>xs. wholeOf (f x)))"
    by (rule Cons.IH [OF rest bound])
  also have "a + k + (\<Sum>x\<leftarrow>xs. wholeOf (f x)) = a + (\<Sum>x\<leftarrow>x # xs. wholeOf (f x))"
    by (simp add: k wholeOf_def)
  finally show ?case .
qed

lemma decimal_digit_plain:
  assumes "isRadixDigit 10 c"
  shows "\<not> isStrWhiteSpace c" and "c \<noteq> CHR ''-''" and "c \<noteq> CHR ''+''"
  using assms
  by (auto simp: isRadixDigit_def digitValue_def isStrWhiteSpace_def Let_def split: if_splits)

lemma dropWhile_white:
  assumes "\<forall>c \<in> set ws. isStrWhiteSpace c"
    and "case t of [] \<Rightarrow> True | c # _ \<Rightarrow> \<not> isStrWhiteSpace c"
  shows "dropWhile isStrWhiteSpace (ws @ t) = t"
proof -
  have "dropWhile isStrWhiteSpace (ws @ t) = dropWhile isStrWhiteSpace t"
    using assms(1) by (simp add: dropWhile_append2)
  also have "\<dots> = t" using assms(2) by (cases t) simp_all
  finally show ?thesis .
qed

lemma stripSign_cases:
  assumes "sg = [] \<or> sg = ''-'' \<or> sg = ''+''"
    and "sg = [] \<longrightarrow> (case u of [] \<Rightarrow> True | c # _ \<Rightarrow> c \<noteq> CHR ''-'' \<and> c \<noteq> CHR ''+'')"
  shows "stripSign (sg @ u) = (if sg = ''-'' then - 1 else 1, u)"
  using assms by (cases u) (auto simp: stripSign_def)

lemma stripPrefix_cases:
  assumes "px = [] \<or> px = ''0x'' \<or> px = ''0X''"
    and "px = [] \<longrightarrow> take 2 v \<noteq> ''0x'' \<and> take 2 v \<noteq> ''0X''"
  shows "stripPrefix (px @ v) = (if px = [] then 10 else 16, v)"
  using assms by (auto simp: stripPrefix_def split: list.splits)

lemma takeWhile_run:
  assumes "\<forall>c \<in> set ds. P c" and "case rest of [] \<Rightarrow> True | c # _ \<Rightarrow> \<not> P c"
  shows "takeWhile P (ds @ rest) = ds"
  using assms by (cases rest) (simp_all add: takeWhile_append2)

text \<open>
  How \<open>parseInt\<close> reads a string, part by part: white space \<open>ws\<close>, a sign \<open>sg\<close>, a
  prefix \<open>px\<close>, the digits \<open>ds\<close>, and a rest that is not read.
\<close>

lemma parseInt_parts:
  assumes ws: "\<forall>c \<in> set ws. isStrWhiteSpace c"
    and sg: "sg = [] \<or> sg = ''-'' \<or> sg = ''+''"
    and px: "px = [] \<or> px = ''0x'' \<or> px = ''0X''"
    and ds: "\<forall>c \<in> set ds. isRadixDigit (if px = [] then 10 else 16) c"
    and rest: "case rest of [] \<Rightarrow> True | c # _ \<Rightarrow> \<not> isRadixDigit (if px = [] then 10 else 16) c"
    and first: "case sg @ px @ ds @ rest of [] \<Rightarrow> True | c # _ \<Rightarrow> \<not> isStrWhiteSpace c"
    and nosign: "sg = [] \<longrightarrow>
       (case px @ ds @ rest of [] \<Rightarrow> True | c # _ \<Rightarrow> c \<noteq> CHR ''-'' \<and> c \<noteq> CHR ''+'')"
    and nohex: "px = [] \<longrightarrow> take 2 (ds @ rest) \<noteq> ''0x'' \<and> take 2 (ds @ rest) \<noteq> ''0X''"
  shows "parseInt (ws @ sg @ px @ ds @ rest) =
     (if ds = [] then NaN
      else toNumber ((if sg = ''-'' then - 1 else 1) * digitsValue (if px = [] then 10 else 16) ds))"
proof -
  have a: "dropWhile isStrWhiteSpace (ws @ sg @ px @ ds @ rest) = sg @ px @ ds @ rest"
    by (rule dropWhile_white [OF ws first])
  have b: "stripSign (sg @ px @ ds @ rest) = (if sg = ''-'' then - 1 else 1, px @ ds @ rest)"
    by (rule stripSign_cases [OF sg nosign])
  have c: "stripPrefix (px @ ds @ rest) = (if px = [] then 10 else 16, ds @ rest)"
    by (rule stripPrefix_cases [OF px nohex])
  have d: "takeWhile (isRadixDigit (if px = [] then 10 else 16)) (ds @ rest) = ds"
    by (rule takeWhile_run [OF ds rest])
  show ?thesis
    by (simp only: parseInt_def a b c d Let_def prod.case)
qed

lemma minutes_parseInt: "minutes s = (if parseInt s = NaN then Finite 0 else parseInt s)"
  by (cases "parseInt s") (simp_all add: minutes_def)

lemma parseInt_leading_digits:
  assumes "ds \<noteq> []" and "\<forall>c \<in> set ds. isRadixDigit 10 c"
    and "case rest of [] \<Rightarrow> True | c # _ \<Rightarrow> \<not> isRadixDigit 10 c"
    and "take 2 (ds @ rest) \<noteq> ''0x''" and "take 2 (ds @ rest) \<noteq> ''0X''"
  shows "parseInt (ds @ rest) = toNumber (digitsValue 10 ds)"
proof -
  from assms(1) obtain c cs where c: "ds = c # cs" by (cases ds) auto
  with assms(2) have "isRadixDigit 10 c" by simp
  note plain = decimal_digit_plain [OF this]
  have "parseInt ([] @ [] @ [] @ ds @ rest) =
     (if ds = [] then NaN
      else toNumber ((if [] = ''-'' then - 1 else 1) * digitsValue (if ([]::string) = [] then 10 else 16) ds))"
    using assms plain by (intro parseInt_parts) (simp_all add: c)
  with assms(1) show ?thesis by simp
qed

lemma parseInt_no_number:
  assumes "case s of [] \<Rightarrow> True
           | c # _ \<Rightarrow> \<not> isRadixDigit 10 c \<and> \<not> isStrWhiteSpace c \<and> c \<noteq> CHR ''-'' \<and> c \<noteq> CHR ''+''"
  shows "parseInt s = NaN"
proof -
  have zero: "isRadixDigit 10 CHR ''0''"
    by (simp add: isRadixDigit_def digitValue_def)
  have "parseInt ([] @ [] @ [] @ [] @ s) =
     (if ([]::string) = [] then NaN
      else toNumber ((if [] = ''-'' then - 1 else 1) * digitsValue (if ([]::string) = [] then 10 else 16) []))"
    using assms zero by (intro parseInt_parts) (auto split: list.splits)
  then show ?thesis by simp
qed

lemma digitsValue_snoc:
  "digitsValue radix (ds @ [c]) =
     (case digitValue c of None \<Rightarrow> digitsValue radix ds
      | Some v \<Rightarrow> digitsValue radix ds * int radix + int v)"
  by (simp add: digitsValue_def split: option.splits)

lemma total_as_fold:
  "foldl (\<lambda>total r. addNumber total (f r)) a rs = foldl addNumber a (map f rs)"
  by (induction rs arbitrary: a) simp_all


lemma digits_fold_nonneg:
  "0 \<le> a \<Longrightarrow>
     0 \<le> foldl (\<lambda>acc c. case digitValue c of None \<Rightarrow> acc | Some v \<Rightarrow> acc * int radix + int v) a ds"
  by (induction ds arbitrary: a) (auto split: option.splits)

lemma digitsValue_nonneg: "0 \<le> digitsValue radix ds"
  by (simp add: digitsValue_def digits_fold_nonneg)

lemma totalPrepTime_exact:
  assumes "\<forall>r \<in> set (recipes m). \<exists>k. minutes (prepTime r) = Finite k"
    and "(\<Sum>r\<leftarrow>recipes m. \<bar>wholeOf (minutes (prepTime r))\<bar>) \<le> 2 ^ 53"
  shows "totalPrepTime m = Finite (\<Sum>r\<leftarrow>recipes m. wholeOf (minutes (prepTime r)))"
proof -
  have "\<bar>0\<bar> + (\<Sum>r\<leftarrow>recipes m. \<bar>wholeOf (minutes (prepTime r))\<bar>) \<le> 2 ^ 53"
    using assms(2) by simp
  from foldl_addNumber_exact [OF assms(1) this]
  show ?thesis by (simp add: totalPrepTime_def)
qed

lemma totalCookTime_exact:
  assumes "\<forall>r \<in> set (recipes m). \<exists>k. minutes (cookTime r) = Finite k"
    and "(\<Sum>r\<leftarrow>recipes m. \<bar>wholeOf (minutes (cookTime r))\<bar>) \<le> 2 ^ 53"
  shows "totalCookTime m = Finite (\<Sum>r\<leftarrow>recipes m. wholeOf (minutes (cookTime r)))"
proof -
  have "\<bar>0\<bar> + (\<Sum>r\<leftarrow>recipes m. \<bar>wholeOf (minutes (cookTime r))\<bar>) \<le> 2 ^ 53"
    using assms(2) by simp
  from foldl_addNumber_exact [OF assms(1) this]
  show ?thesis by (simp add: totalCookTime_def)
qed

lemma minutes_leading_digits:
  assumes "us \<noteq> []" and "\<forall>c \<in> set us. isRadixDigit 10 c"
    and "case tl' of [] \<Rightarrow> True | c # _ \<Rightarrow> \<not> isRadixDigit 10 c"
    and "take 2 (us @ tl') \<noteq> ''0x''" and "take 2 (us @ tl') \<noteq> ''0X''"
    and "digitsValue 10 us \<le> 2 ^ 53"
  shows "minutes (us @ tl') = Finite (digitsValue 10 us)"
proof -
  have "parseInt (us @ tl') = toNumber (digitsValue 10 us)"
    by (rule parseInt_leading_digits [OF assms(1-5)])
  also have "\<dots> = Finite (digitsValue 10 us)"
    using assms(6) digitsValue_nonneg [of 10 us] by (intro toNumber_exact) simp
  finally show ?thesis by (simp add: minutes_def)
qed

lemma minutes_no_number:
  assumes "case t of [] \<Rightarrow> True
         | c # _ \<Rightarrow> \<not> isRadixDigit 10 c \<and> \<not> isStrWhiteSpace c \<and> c \<noteq> CHR ''-'' \<and> c \<noteq> CHR ''+''"
  shows "minutes t = Finite 0"
  using parseInt_no_number [OF assms] by (simp add: minutes_def)

text \<open>
  Claim C6, as the code has it. For every menu, the total preparation time (and likewise
  the total cooking time) is the sum from the left, starting at 0 and in the arithmetic
  of doubles, of \<open>parseInt(s) || 0\<close> over the time strings of the menu's recipes, and
  no string raises. When every term is finite and the magnitudes of the terms add up to
  at most \<open>2^53\<close>, the total is exactly the integer sum of the terms.
  \<open>parseInt(s) || 0\<close> is 0 when \<open>parseInt\<close> gives \<open>NaN\<close> and the result of \<open>parseInt\<close>
  otherwise. \<open>parseInt\<close> reads a string made of white space, an optional sign, an
  optional prefix \<open>0x\<close> or \<open>0X\<close>, a run of digits (hexadecimal after the prefix,
  decimal without it) and a rest that does not continue the run: with no digit it gives
  \<open>NaN\<close>, otherwise the Number of the signed value of the run, the value of a run being
  positional; a whole number of magnitude up to \<open>2^53\<close> is that Number exactly. So a
  string that begins with a run of decimal digits of value at most \<open>2^53\<close> (and not
  with \<open>0x\<close> or \<open>0X\<close>) contributes the value of the run, and a string that is empty
  or whose first character is neither a digit, nor white space, nor a sign contributes 0.
\<close>

theorem totalTimes_sum:
  "totalPrepTime m = foldl addNumber (Finite 0) (map (\<lambda>r. minutes (prepTime r)) (recipes m))
   \<and> totalCookTime m = foldl addNumber (Finite 0) (map (\<lambda>r. minutes (cookTime r)) (recipes m))
   \<and> ((\<forall>r \<in> set (recipes m). \<exists>k. minutes (prepTime r) = Finite k)
        \<longrightarrow> (\<Sum>r\<leftarrow>recipes m. \<bar>wholeOf (minutes (prepTime r))\<bar>) \<le> 2 ^ 53
        \<longrightarrow> totalPrepTime m = Finite (\<Sum>r\<leftarrow>recipes m. wholeOf (minutes (prepTime r))))
   \<and> ((\<forall>r \<in> set (recipes m). \<exists>k. minutes (cookTime r) = Finite k)
        \<longrightarrow> (\<Sum>r\<leftarrow>recipes m. \<bar>wholeOf (minutes (cookTime r))\<bar>) \<le> 2 ^ 53
        \<longrightarrow> totalCookTime m = Finite (\<Sum>r\<leftarrow>recipes m. wholeOf (minutes (cookTime r))))
   \<and> minutes s = (if parseInt s = NaN then Finite 0 else parseInt s)
   \<and> ((\<forall>c \<in> set ws. isStrWhiteSpace c)
        \<longrightarrow> (sg = [] \<or> sg = ''-'' \<or> sg = ''+'')
        \<longrightarrow> (px = [] \<or> px = ''0x'' \<or> px = ''0X'')
        \<longrightarrow> (\<forall>c \<in> set ds. isRadixDigit (if px = [] then 10 else 16) c)
        \<longrightarrow> (case rest of [] \<Rightarrow> True | c # _ \<Rightarrow> \<not> isRadixDigit (if px = [] then 10 else 16) c)
        \<longrightarrow> (case sg @ px @ ds @ rest of [] \<Rightarrow> True | c # _ \<Rightarrow> \<not> isStrWhiteSpace c)
        \<longrightarrow> (sg = [] \<longrightarrow>
             (case px @ ds @ rest of [] \<Rightarrow> True | c # _ \<Rightarrow> c \<noteq> CHR ''-'' \<and> c \<noteq> CHR ''+''))
        \<longrightarrow> (px = [] \<longrightarrow> take 2 (ds @ rest) \<noteq> ''0x'' \<and> take 2 (ds @ rest) \<noteq> ''0X'')
        \<longrightarrow> parseInt (ws @ sg @ px @ ds @ rest) =
            (if ds = [] then NaN
             else toNumber ((if sg = ''-'' then - 1 else 1) *
                            digitsValue (if px = [] then 10 else 16) ds)))
   \<and> digitsValue radix [] = 0
   \<and> (digitValue c = Some v \<longrightarrow>
         digitsValue radix (zs @ [c]) = digitsValue radix zs * int radix + int v)
   \<and> (\<bar>k\<bar> \<le> 2 ^ 53 \<longrightarrow> toNumber k = Finite k)
   \<and> (us \<noteq> [] \<longrightarrow> (\<forall>c \<in> set us. isRadixDigit 10 c)
        \<longrightarrow> (case tl' of [] \<Rightarrow> True | c # _ \<Rightarrow> \<not> isRadixDigit 10 c)
        \<longrightarrow> take 2 (us @ tl') \<noteq> ''0x'' \<longrightarrow> take 2 (us @ tl') \<noteq> ''0X''
        \<longrightarrow> digitsValue 10 us \<le> 2 ^ 53
        \<longrightarrow> minutes (us @ tl') = Finite (digitsValue 10 us))
   \<and> ((case t of [] \<Rightarrow> True
         | c # _ \<Rightarrow> \<not> isRadixDigit 10 c \<and> \<not> isStrWhiteSpace c \<and> c \<noteq> CHR ''-'' \<and> c \<noteq> CHR ''+'')
        \<longrightarrow> minutes t = Finite 0)"
proof -
  have p: "totalPrepTime m = foldl addNumber (Finite 0) (map (\<lambda>r. minutes (prepTime r)) (recipes m))"
    unfolding totalPrepTime_def by (rule total_as_fold)
  have c: "totalCookTime m = foldl addNumber (Finite 0) (map (\<lambda>r. minutes (cookTime r)) (recipes m))"
    unfolding totalCookTime_def by (rule total_as_fold)
  have z: "digitsValue radix [] = 0"
    by (simp add: digitsValue_def)
  have snoc: "digitsValue radix (zs @ [c]) = digitsValue radix zs * int radix + int v"
    if "digitValue c = Some v"
    using that by (simp add: digitsValue_snoc)
  show ?thesis
    apply (intro conjI impI)
              apply (rule p)
             apply (rule c)
            apply (rule totalPrepTime_exact; assumption)
           apply (rule totalCookTime_exact; assumption)
          apply (rule minutes_parseInt)
         apply (rule parseInt_parts; assumption)
        apply (rule z)
       apply (erule snoc)
      apply (erule toNumber_exact)
     apply (rule minutes_leading_digits; assumption)
    apply (erule minutes_no_number)
    done
qed

theorem totalTimes_witness:
  "totalPrepTime \<lparr>menu_name = ''Sunday'', recipes =
      [\<lparr>mr_name = ''Roast'', prepTime = ''30 mins'', cookTime = ''90 mins''\<rparr>,
       \<lparr>mr_name = ''Salad'', prepTime = ''15 mins'', cookTime = ''none''\<rparr>,
       \<lparr>mr_name = ''Bread'', prepTime = ''quick'', cookTime = ''20''\<rparr>]\<rparr> = Finite 45
   \<and> totalCookTime \<lparr>menu_name = ''Sunday'', recipes =
      [\<lparr>mr_name = ''Roast'', prepTime = ''30 mins'', cookTime = ''90 mins''\<rparr>,
       \<lparr>mr_name = ''Salad'', prepTime = ''15 mins'', cookTime = ''none''\<rparr>,
       \<lparr>mr_name = ''Bread'', prepTime = ''quick'', cookTime = ''20''\<rparr>]\<rparr> = Finite 110
   \<and> minutes ''quick'' = Finite 0
   \<and> minutes ''30 mins'' = Finite 30
   \<and> parseInt '' -0x1A mins'' = Finite (- 26)
   \<and> digitsValue 16 ''1A'' = 26
   \<and> toNumber 45 = Finite 45"
proof -
  let ?m = "\<lparr>menu_name = ''Sunday'', recipes =
      [\<lparr>mr_name = ''Roast'', prepTime = ''30 mins'', cookTime = ''90 mins''\<rparr>,
       \<lparr>mr_name = ''Salad'', prepTime = ''15 mins'', cookTime = ''none''\<rparr>,
       \<lparr>mr_name = ''Bread'', prepTime = ''quick'', cookTime = ''20''\<rparr>]\<rparr>"
  note T = totalTimes_sum [where m = ?m and s = "''quick''" and ws = "'' ''" and sg = "''-''"
      and px = "''0x''" and ds = "''1A''" and rest = "'' mins''" and radix = 16
      and c = "CHR ''A''" and v = 10 and zs = "''1''" and k = 45 and us = "''30''"
      and tl' = "'' mins''" and t = "''quick''"]
  note T3 = T [THEN conjunct2, THEN conjunct2]
  note T4 = T3 [THEN conjunct2]
  note T6 = T4 [THEN conjunct2, THEN conjunct2]
  note T8 = T6 [THEN conjunct2, THEN conjunct2]
  note T9 = T8 [THEN conjunct2]
  note T10 = T9 [THEN conjunct2]
  note T11 = T10 [THEN conjunct2]
  have m30: "minutes ''30 mins'' = Finite 30" by code_simp
  have m15: "minutes ''15 mins'' = Finite 15" by code_simp
  have m90: "minutes ''90 mins'' = Finite 90" by code_simp
  have m20: "minutes ''20'' = Finite 20" by code_simp
  have none: "minutes ''none'' = Finite 0" by code_simp
  have quick: "minutes ''quick'' = Finite 0"
    by (rule T11 [rule_format]) (simp add: isRadixDigit_def digitValue_def isStrWhiteSpace_def)
  have prep: "totalPrepTime ?m = Finite (\<Sum>r\<leftarrow>recipes ?m. wholeOf (minutes (prepTime r)))"
    by (rule T3 [THEN conjunct1, rule_format]) (auto simp: m30 m15 quick wholeOf_def)
  have cook: "totalCookTime ?m = Finite (\<Sum>r\<leftarrow>recipes ?m. wholeOf (minutes (cookTime r)))"
    by (rule T4 [THEN conjunct1, rule_format]) (auto simp: m90 m20 none wholeOf_def)
  have d30: "digitsValue 10 ''30'' = 30" by code_simp
  have lead: "minutes (''30'' @ '' mins'') = Finite (digitsValue 10 ''30'')"
    by (rule T10 [THEN conjunct1, rule_format])
       (auto simp: isRadixDigit_def digitValue_def d30)
  have d1: "digitsValue 16 ''1'' = 1" by code_simp
  have dA: "digitValue CHR ''A'' = Some 10" by code_simp
  have hexval: "digitsValue 16 (''1'' @ [CHR ''A'']) = digitsValue 16 ''1'' * int 16 + int 10"
    by (rule T8 [THEN conjunct1, rule_format]) (rule dA)
  then have d1A: "digitsValue 16 ''1A'' = 26" by (simp add: d1)
  have "parseInt ('' '' @ ''-'' @ ''0x'' @ ''1A'' @ '' mins'') =
      (if ''1A'' = [] then NaN
       else toNumber ((if ''-'' = ''-'' then - 1 else 1) *
                      digitsValue (if ''0x'' = [] then 10 else 16) ''1A''))"
    by (rule T6 [THEN conjunct1, rule_format])
       (auto simp: isRadixDigit_def digitValue_def isStrWhiteSpace_def)
  then have hex: "parseInt '' -0x1A mins'' = toNumber (- 26)"
    by (simp add: d1A)
  have n26: "toNumber (- 26) = Finite (- 26)" by code_simp
  have n45: "toNumber 45 = Finite 45"
    by (rule T9 [THEN conjunct1, rule_format]) simp
  from prep cook quick lead hex d1A n45 show ?thesis
    by (simp add: m30 m15 m90 m20 none wholeOf_def d30 n26)
qed

text \<open>
  The claim as the specification words it (a string that does not start with digits
  contributes 0) fails on a leading sign and on leading white space, which \<open>parseInt\<close>
  accepts.
\<close>

theorem totalPrepTime_sign_counterexample:
  "totalPrepTime \<lparr>menu_name = ''Odd'', recipes =
      [\<lparr>mr_name = ''Stew'', prepTime = ''-5 mins'', cookTime = ''''\<rparr>]\<rparr> = Finite (- 5)
   \<and> totalPrepTime \<lparr>menu_name = ''Odd'', recipes =
      [\<lparr>mr_name = ''Stew'', prepTime = '' 30 mins'', cookTime = ''''\<rparr>]\<rparr> = Finite 30"
  by code_simp

section \<open>The order of the shopping items\<close>

lemma sortedByName_sortItems: "sortedByName lc (sortItems lc xs)"
  by (simp add: sortedByName_def sortItems_def)

lemma sortedByName_initialView: "sortedByName lc (items initialView)"
  by (simp add: sortedByName_def initialView_def)

lemma fetchItems_sorted:
  "sortedByName lc (items v) \<Longrightarrow> sortedByName lc (items (fetchItems lc reply v))"
  by (cases reply) (simp_all add: fetchItems_def sortedByName_sortItems)

lemma fetchShoppingLists_sorted:
  "sortedByName lc (items v) \<Longrightarrow>
     sortedByName lc (items (fetchShoppingLists lc listsReply itemsReply v))"
  by (auto simp: fetchShoppingLists_def split: awaited.splits list.splits
        intro!: fetchItems_sorted)

lemma handleAddList_items: "items (handleAddList reply v listName) = items v"
  by (cases reply) (simp_all add: handleAddList_def Let_def)

lemma selectList_items: "items (fst (selectList v l)) = items v"
  by (simp add: selectList_def)

lemma handleSelectItem_items: "items (handleSelectItem v itemId) = items v"
  by (simp add: handleSelectItem_def)

lemma handleAddItem_sorted:
  "sortedByName lc (items v) \<Longrightarrow> sortedByName lc (items (handleAddItem lc reply v newItem))"
  by (auto simp: handleAddItem_def Let_def sortedByName_sortItems
        split: option.splits awaited.splits)

lemma handleSaveEdit_sorted:
  "sortedByName lc (items v) \<Longrightarrow> sortedByName lc (items (handleSaveEdit lc reply v editedItem))"
  by (auto simp: handleSaveEdit_def sortedByName_sortItems
        split: option.splits awaited.splits)

lemma toggleComplete_sorted:
  "sortedByName lc (items v) \<Longrightarrow> sortedByName lc (items (toggleComplete lc reply v item))"
  by (auto simp: toggleComplete_def Let_def sortedByName_sortItems
        split: option.splits awaited.splits)

lemma handleDeleteSelected_sorted:
  "sortedByName lc (items v) \<Longrightarrow> sortedByName lc (items (handleDeleteSelected lc reply v))"
  by (auto simp: handleDeleteSelected_def sortedByName_sortItems
        split: option.splits awaited.splits)

lemma handleDeleteItem_sorted:
  "sortedByName lc (items v) \<Longrightarrow> sortedByName lc (items (handleDeleteItem lc reply v itemId))"
  by (auto simp: handleDeleteItem_def sortedByName_sortItems
        split: option.splits awaited.splits)

text \<open>
  Rule induction over the states of the page: the first state has no items, and every
  handler either leaves the items alone or stores a freshly sorted list.
\<close>

lemma reachable_sorted:
  "reachable lc v \<Longrightarrow> sortedByName lc (items v)"
proof (induction rule: reachable.induct)
  case mount
  show ?case by (rule sortedByName_initialView)
next
  case (loadLists v listsReply itemsReply)
  then show ?case by (simp add: fetchShoppingLists_sorted)
next
  case (addList v idReply listName)
  then show ?case by (simp add: handleAddList_items)
next
  case (switchList v l)
  then show ?case by (simp add: selectList_items)
next
  case (addItem v idReply newItem)
  then show ?case by (simp add: handleAddItem_sorted)
next
  case (saveEdit v reply editedItem)
  then show ?case by (simp add: handleSaveEdit_sorted)
next
  case (toggle v reply item)
  then show ?case by (simp add: toggleComplete_sorted)
next
  case (selectItem v itemId)
  then show ?case by (simp add: handleSelectItem_items)
next
  case (deleteSelected v reply)
  then show ?case by (simp add: handleDeleteSelected_sorted)
next
  case (deleteItem v reply itemId)
  then show ?case by (simp add: handleDeleteItem_sorted)
qed

lemma sortItems_pair:
  assumes "compare lc (shop_name a) (shop_name b) = Less"
  shows "sortItems lc [b, a] = [a, b]"
proof -
  have "compare lc (shop_name b) (shop_name a) = Greater"
    using assms by (simp add: compare.greater_iff_sym_less)
  then show ?thesis by (simp add: sortItems_def)
qed

lemma toggleComplete_pair:
  assumes "compare lc (shop_name a) (shop_name b) = Less"
    and "currentList v = Some l" and "items v = [b, a]" and "shop_id a \<noteq> shop_id b"
  shows "items (toggleComplete lc (Returns ()) v b) = [a, b\<lparr>completed := \<not> completed b\<rparr>]"
proof -
  have "items (toggleComplete lc (Returns ()) v b) =
          sortItems lc [b\<lparr>completed := \<not> completed b\<rparr>, a]"
    using assms(2,3,4) by (simp add: toggleComplete_def)
  also have "\<dots> = [a, b\<lparr>completed := \<not> completed b\<rparr>]"
    using assms(1) by (intro sortItems_pair) simp
  finally show ?thesis .
qed

text \<open>
  Claim C8. In every state of the shopping list page, whatever handlers ran before and
  whatever the store answered, the items in memory are sorted by name under
  \<open>localeCompare\<close>; a load that returns stores the sorted list. In particular, where
  \<open>localeCompare\<close> puts Apples before Bananas, toggling Bananas in the list Bananas,
  Apples (both pending) gives Apples, Bananas, with Apples pending and Bananas completed.
\<close>

theorem items_sorted_invariant:
  "(reachable lc v \<longrightarrow> sortedByName lc (items v))
   \<and> sortedByName lc (items (fetchItems lc (Returns itemsData) v))
   \<and> (compare lc ''Apples'' ''Bananas'' = Less \<and> currentList v = Some l \<and> items v = [b, a]
        \<and> shop_name b = ''Bananas'' \<and> shop_name a = ''Apples'' \<and> shop_id a \<noteq> shop_id b
        \<and> \<not> completed a \<and> \<not> completed b
      \<longrightarrow> items (toggleComplete lc (Returns ()) v b) = [a, b\<lparr>completed := True\<rparr>]
          \<and> map shop_name (items (toggleComplete lc (Returns ()) v b)) = [''Apples'', ''Bananas'']
          \<and> map completed (items (toggleComplete lc (Returns ()) v b)) = [False, True])"
proof (intro conjI impI)
  show "sortedByName lc (items v)" if "reachable lc v"
    using that by (rule reachable_sorted)
  show "sortedByName lc (items (fetchItems lc (Returns itemsData) v))"
    by (simp add: fetchItems_def sortedByName_sortItems)
next
  assume h: "compare lc ''Apples'' ''Bananas'' = Less \<and> currentList v = Some l \<and> items v = [b, a]
        \<and> shop_name b = ''Bananas'' \<and> shop_name a = ''Apples'' \<and> shop_id a \<noteq> shop_id b
        \<and> \<not> completed a \<and> \<not> completed b"
  then have t: "items (toggleComplete lc (Returns ()) v b) = [a, b\<lparr>completed := True\<rparr>]"
    using toggleComplete_pair [of lc a b v l] by simp
  show "items (toggleComplete lc (Returns ()) v b) = [a, b\<lparr>completed := True\<rparr>]"
    by (rule t)
  show "map shop_name (items (toggleComplete lc (Returns ()) v b)) = [''Apples'', ''Bananas'']"
    using h by (simp add: t)
  show "map completed (items (toggleComplete lc (Returns ()) v b)) = [False, True]"
    using h by (simp add: t)
qed

theorem items_sorted_witness:
  "reachable (default :: string comparator)
     (fetchShoppingLists default (Returns [\<lparr>list_id = ''L1'', list_name = ''Weekly''\<rparr>])
        (Returns [\<lparr>shop_id = ''i1'', shop_name = ''Bananas'', shop_category = ''Fruit'',
                    completed = False, products = ([] :: unit list)\<rparr>,
                  \<lparr>shop_id = ''i2'', shop_name = ''Apples'', shop_category = ''Fruit'',
                    completed = False, products = []\<rparr>])
        initialView)
   \<and> sortedByName (default :: string comparator)
       (items (fetchShoppingLists default (Returns [\<lparr>list_id = ''L1'', list_name = ''Weekly''\<rparr>])
        (Returns [\<lparr>shop_id = ''i1'', shop_name = ''Bananas'', shop_category = ''Fruit'',
                    completed = False, products = ([] :: unit list)\<rparr>,
                  \<lparr>shop_id = ''i2'', shop_name = ''Apples'', shop_category = ''Fruit'',
                    completed = False, products = []\<rparr>])
        initialView))
   \<and> compare (default :: string comparator) ''Apples'' ''Bananas'' = Less
   \<and> items (toggleComplete (default :: string comparator) (Returns ())
        \<lparr>shoppingLists = [\<lparr>list_id = ''L1'', list_name = ''Weekly''\<rparr>],
         currentList = Some \<lparr>list_id = ''L1'', list_name = ''Weekly''\<rparr>,
         items = [\<lparr>shop_id = ''i1'', shop_name = ''Bananas'', shop_category = ''Fruit'',
                    completed = False, products = ([] :: unit list)\<rparr>,
                  \<lparr>shop_id = ''i2'', shop_name = ''Apples'', shop_category = ''Fruit'',
                    completed = False, products = []\<rparr>],
         selectedItems = [], addModalOpen = False, editModalOpen = False,
         selectedItem = None, isListDropdownOpen = False\<rparr>
        \<lparr>shop_id = ''i1'', shop_name = ''Bananas'', shop_category = ''Fruit'',
          completed = False, products = []\<rparr>)
     = [\<lparr>shop_id = ''i2'', shop_name = ''Apples'', shop_category = ''Fruit'',
          completed = False, products = []\<rparr>,
        \<lparr>shop_id = ''i1'', shop_name = ''Bananas'', shop_category = ''Fruit'',
          completed = True, products = []\<rparr>]"
proof -
  let ?lc = "default :: string comparator"
  let ?l = "\<lparr>list_id = ''L1'', list_name = ''Weekly''\<rparr>"
  let ?b = "\<lparr>shop_id = ''i1'', shop_name = ''Bananas'', shop_category = ''Fruit'',
             completed = False, products = ([] :: unit list)\<rparr>"
  let ?a = "\<lparr>shop_id = ''i2'', shop_name = ''Apples'', shop_category = ''Fruit'',
             completed = False, products = ([] :: unit list)\<rparr>"
  let ?loaded = "fetchShoppingLists ?lc (Returns [?l]) (Returns [?b, ?a]) initialView"
  let ?v = "\<lparr>shoppingLists = [?l], currentList = Some ?l, items = [?b, ?a],
             selectedItems = [], addModalOpen = False, editModalOpen = False,
             selectedItem = None, isListDropdownOpen = False\<rparr>"
  have reach: "reachable ?lc ?loaded"
    by (intro reachable.intros)
  have order: "compare ?lc ''Apples'' ''Bananas'' = Less"
    by simp
  have hyp: "compare ?lc ''Apples'' ''Bananas'' = Less \<and> currentList ?v = Some ?l \<and> items ?v = [?b, ?a]
        \<and> shop_name ?b = ''Bananas'' \<and> shop_name ?a = ''Apples'' \<and> shop_id ?a \<noteq> shop_id ?b
        \<and> \<not> completed ?a \<and> \<not> completed ?b"
    using order by simp
  from items_sorted_invariant [where lc = ?lc and v = ?loaded] reach
  have sorted: "sortedByName ?lc (items ?loaded)" by blast
  from items_sorted_invariant [where lc = ?lc and v = ?v and l = ?l and b = ?b and a = ?a] hyp
  have "items (toggleComplete ?lc (Returns ()) ?v ?b) = [?a, ?b\<lparr>completed := True\<rparr>]"
    by blast
  with reach sorted order show ?thesis by simp
qed

end
